theory Spec2Isabelle
  imports Complex_Main
begin

section \<open>Data model of the game client\<close>

text \<open>
  The client is the class \<open>GameClient\<close> in its second revision (the one with local
  movement prediction: \<open>calculateNewPosition\<close>, \<open>updateMyPosition\<close>). JavaScript numbers
  are modelled as exact reals (coordinates are small integers and halves of canvas
  sizes; NaN, infinities and rounding are outside the model).

  JavaScript objects have identity: \<open>this.myPlayer\<close> and \<open>this.players[id]\<close> hold
  references. A player object therefore lives in a store \<open>heap\<close> under an address, and
  the fields of the client hold addresses. Property names \<open>id\<close>, \<open>x\<close>, \<open>y\<close> of a player
  are written \<open>player_id\<close>, \<open>player_x\<close>, \<open>player_y\<close>.
\<close>

type_synonym ref = nat

record player =
  player_id :: string
  player_x :: real
  player_y :: real
  facing :: "string option"
  animationFrame :: "nat option"
  username :: string
  avatar :: string

record avatar_def =
  avatar_name :: string
  frames :: "string \<rightharpoonup> string list"

text \<open>What the client sends with \<open>socket.send\<close>.\<close>

datatype out_msg = JoinGame string | Move real real | Stop

text \<open>
  Effects outside the client object, in the order they happen: a message handed to
  \<open>socket.send\<close>, a call of \<open>render()\<close> that passed its \<open>worldImage\<close> guard, and an image
  load started by \<open>loadAvatarImage\<close> (with the frame data given as \<open>img.src\<close>).
\<close>

datatype effect = Sent out_msg | RenderPass | ImageLoad string

text \<open>
  What a property read \<open>this.players[k]\<close> can give: nothing, a player object, a number
  or string (a field of a player object that has become the prototype of the store),
  or a property of \<open>Object.prototype\<close>, kept as the string it converts to.
\<close>

datatype jsvalue = Undefined | Object ref | Number real | String string | Builtin string

text \<open>
  An inbound message after \<open>JSON.parse\<close>: player objects are addresses of the store. A
  parsed map of players is a plain object: its keys in property order and its
  properties. \<open>JoinGameOk playerId keys players avatars\<close> is \<open>join_game\<close> with
  \<open>success: true\<close>.
\<close>

datatype in_msg =
    JoinGameOk string "string list" "string \<rightharpoonup> ref" "string \<rightharpoonup> avatar_def"
  | JoinGameFail string
  | PlayerJoined ref avatar_def
  | PlayersMoved "string list" "string \<rightharpoonup> ref"
  | PlayerLeft string
  | MoveAck bool string
  | StopAck bool string
  | Unknown string

text \<open>
  The same message on the wire: a JSON object is a list of key/value pairs, player
  objects are values.
\<close>

datatype wire_msg =
    WJoinGameOk string "(string \<times> player) list" "string \<rightharpoonup> avatar_def"
  | WJoinGameFail string
  | WPlayerJoined player avatar_def
  | WPlayersMoved "(string \<times> player) list"
  | WPlayerLeft string
  | WMoveAck bool string
  | WStopAck bool string
  | WUnknown string

text \<open>
  The fields of \<open>GameClient\<close>. \<open>worldImage\<close> tells whether the field is non-null,
  \<open>socketOpen\<close> whether \<open>this.socket && this.socket.readyState === WebSocket.OPEN\<close>;
  \<open>canvasWidth\<close> and \<open>canvasHeight\<close> are \<open>this.canvas.width\<close> and \<open>this.canvas.height\<close>.

  \<open>this.players\<close> is a plain object: \<open>players\<close> are its own properties, \<open>playersKeys\<close>
  their keys in property order (the order of \<open>for ... in\<close>), and \<open>playersProto\<close> is its
  prototype, \<open>None\<close> for \<open>Object.prototype\<close> and \<open>Some r\<close> once the setter of \<open>__proto__\<close>
  has installed the object \<open>r\<close>.

  \<open>pressedKeys\<close> keeps the insertion order of the object's properties, which
  \<open>Object.entries\<close> and \<open>Object.values\<close> follow. \<open>pending\<close> holds the calls of
  \<open>renderAvatar\<close> suspended at \<open>await this.loadAvatarImage(frameData)\<close>, each with its
  cache key and frame data.
\<close>

record GameClient =
  worldImage :: bool
  worldWidth :: real
  worldHeight :: real
  players :: "string \<rightharpoonup> ref"
  playersKeys :: "string list"
  playersProto :: "ref option"
  avatars :: "string \<rightharpoonup> avatar_def"
  myPlayerId :: "string option"
  myPlayer :: "ref option"
  imageCache :: "string \<rightharpoonup> string"
  pressedKeys :: "(string \<times> bool) list"
  lastSentDirection :: "string option"
  isMoving :: bool
  cameraX :: real
  cameraY :: real
  socketOpen :: bool
  canvasWidth :: real
  canvasHeight :: real
  heap :: "ref \<Rightarrow> player"
  nextRef :: ref
  pending :: "(string \<times> string) list"
  effects :: "effect list"

section \<open>Construction and connection\<close>

definition noPlayer :: player where
  "noPlayer = \<lparr>player_id = [], player_x = 0, player_y = 0, facing = None,
     animationFrame = None, username = [], avatar = []\<rparr>"

text \<open>
  The constructor with \<open>init()\<close>: \<open>loadWorldMap\<close> sets \<open>worldImage\<close> to a new image,
  \<open>connectToServer\<close> creates a socket that is still connecting. The arguments are
  \<open>window.innerWidth\<close> and \<open>window.innerHeight\<close>.
\<close>

definition constructor :: "real \<Rightarrow> real \<Rightarrow> GameClient" where
  "constructor innerWidth innerHeight =
     \<lparr>worldImage = True, worldWidth = 2048, worldHeight = 2048,
      players = Map.empty, playersKeys = [], playersProto = None,
      avatars = Map.empty, myPlayerId = None, myPlayer = None,
      imageCache = Map.empty,
      pressedKeys = [(''ArrowUp'', False), (''ArrowDown'', False),
                     (''ArrowLeft'', False), (''ArrowRight'', False)],
      lastSentDirection = None, isMoving = False, cameraX = 0, cameraY = 0,
      socketOpen = False, canvasWidth = innerWidth, canvasHeight = innerHeight,
      heap = (\<lambda>r. noPlayer), nextRef = 0, pending = [], effects = []\<rparr>"

definition joinGame :: "GameClient \<Rightarrow> GameClient" where
  "joinGame s = s\<lparr>effects := effects s @ [Sent (JoinGame ''Jadon'')]\<rparr>"

definition onopen :: "GameClient \<Rightarrow> GameClient" where
  "onopen s = joinGame (s\<lparr>socketOpen := True\<rparr>)"

definition onclose :: "GameClient \<Rightarrow> GameClient" where
  "onclose s = s\<lparr>socketOpen := False\<rparr>"

section \<open>Plain objects used as dictionaries\<close>

text \<open>
  The properties of \<open>Object.prototype\<close>, which every object literal and every parsed
  JSON object inherits, each with the string its value converts to.
\<close>

definition objectPrototype :: "(string \<times> string) list" where
  "objectPrototype =
     [(''constructor'', ''function Object() { [native code] }''),
      (''__defineGetter__'', ''function __defineGetter__() { [native code] }''),
      (''__defineSetter__'', ''function __defineSetter__() { [native code] }''),
      (''hasOwnProperty'', ''function hasOwnProperty() { [native code] }''),
      (''__lookupGetter__'', ''function __lookupGetter__() { [native code] }''),
      (''__lookupSetter__'', ''function __lookupSetter__() { [native code] }''),
      (''isPrototypeOf'', ''function isPrototypeOf() { [native code] }''),
      (''propertyIsEnumerable'', ''function propertyIsEnumerable() { [native code] }''),
      (''toString'', ''function toString() { [native code] }''),
      (''valueOf'', ''function valueOf() { [native code] }''),
      (''__proto__'', ''[object Object]''),
      (''toLocaleString'', ''function toLocaleString() { [native code] }'')]"

text \<open>
  Property order of an ordinary object: the keys that are array indices (canonical
  decimal numerals below \<open>2^32 - 1\<close>) in ascending order, then the other keys in
  the order of their creation.
\<close>

definition isDigit :: "char \<Rightarrow> bool" where
  "isDigit c = (c \<in> set ''0123456789'')"

definition digitValue :: "char \<Rightarrow> nat" where
  "digitValue c = length (takeWhile (\<lambda>d. d \<noteq> c) ''0123456789'')"

definition indexValue :: "string \<Rightarrow> nat" where
  "indexValue k = foldl (\<lambda>n c. 10 * n + digitValue c) 0 k"

definition isIndexKey :: "string \<Rightarrow> bool" where
  "isIndexKey k =
     (k \<noteq> [] \<and> list_all isDigit k \<and> (k = ''0'' \<or> hd k \<noteq> CHR ''0'') \<and>
      indexValue k < 4294967295)"

text \<open>The place of a new key \<open>k\<close> among the keys \<open>ks\<close>.\<close>

fun insertKey :: "string \<Rightarrow> string list \<Rightarrow> string list" where
  "insertKey k [] = [k]"
| "insertKey k (k' # ks) =
     (if isIndexKey k \<and> (\<not> isIndexKey k' \<or> indexValue k < indexValue k')
      then k # k' # ks else k' # insertKey k ks)"

text \<open>
  A property of a parsed player object read by name; a field that the JSON text
  leaves out is inherited from \<open>Object.prototype\<close> like any other name.
\<close>

definition objectPrototypeProperty :: "string \<Rightarrow> jsvalue" where
  "objectPrototypeProperty k =
     (case map_of objectPrototype k of None \<Rightarrow> Undefined | Some b \<Rightarrow> Builtin b)"

definition playerProperty :: "player \<Rightarrow> string \<Rightarrow> jsvalue" where
  "playerProperty p k =
     (if k = ''id'' then String (player_id p)
      else if k = ''x'' then Number (player_x p)
      else if k = ''y'' then Number (player_y p)
      else if k = ''username'' then String (username p)
      else if k = ''avatar'' then String (avatar p)
      else if k = ''facing'' \<and> facing p \<noteq> None then String (the (facing p))
      else if k = ''animationFrame'' \<and> animationFrame p \<noteq> None
        then Number (real (the (animationFrame p)))
      else objectPrototypeProperty k)"

text \<open>
  \<open>this.players[k]\<close>: an own property, else what the prototype chain gives. For
  \<open>__proto__\<close> the getter of \<open>Object.prototype\<close> answers with the prototype itself.
\<close>

definition lookupPlayers :: "GameClient \<Rightarrow> string \<Rightarrow> jsvalue" where
  "lookupPlayers s k =
     (case players s k of
        Some r \<Rightarrow> Object r
      | None \<Rightarrow>
          (case playersProto s of
             None \<Rightarrow> objectPrototypeProperty k
           | Some r \<Rightarrow> if k = ''__proto__'' then Object r else playerProperty (heap s r) k))"

text \<open>
  \<open>this.players[k] = v\<close> for an object \<open>v\<close>, also each step of \<open>Object.assign\<close>: an own
  property is overwritten in place. Otherwise the assignment goes up the prototype
  chain: for \<open>__proto__\<close> it finds the setter of \<open>Object.prototype\<close>, which makes \<open>v\<close> the
  prototype of the store and creates no property; for every other key a new own
  property is created.
\<close>

definition setPlayer :: "string \<Rightarrow> ref \<Rightarrow> GameClient \<Rightarrow> GameClient" where
  "setPlayer k r s =
     (if players s k \<noteq> None then s\<lparr>players := (players s)(k \<mapsto> r)\<rparr>
      else if k = ''__proto__'' then s\<lparr>playersProto := Some r\<rparr>
      else s\<lparr>players := (players s)(k \<mapsto> r), playersKeys := insertKey k (playersKeys s)\<rparr>)"

text \<open>
  \<open>Object.assign(this.players, source)\<close>: the own properties of the source, in its
  property order, are assigned one by one.
\<close>

fun assignPlayers :: "string list \<Rightarrow> (string \<rightharpoonup> ref) \<Rightarrow> GameClient \<Rightarrow> GameClient" where
  "assignPlayers [] source s = s"
| "assignPlayers (k # ks) source s =
     assignPlayers ks source (case source k of None \<Rightarrow> s | Some r \<Rightarrow> setPlayer k r s)"

text \<open>\<open>delete this.players[k]\<close> removes an own property and nothing else.\<close>

definition deletePlayer :: "string \<Rightarrow> GameClient \<Rightarrow> GameClient" where
  "deletePlayer k s =
     s\<lparr>players := (players s)(k := None), playersKeys := removeAll k (playersKeys s)\<rparr>"

section \<open>Avatar resolution and the image cache\<close>

text \<open>The local constants of \<open>renderAvatar\<close>; \<open>||\<close> takes its right side for a missing or empty value.\<close>

definition direction :: "player \<Rightarrow> string" where
  "direction p = (case facing p of None \<Rightarrow> ''south'' | Some f \<Rightarrow> if f = [] then ''south'' else f)"

definition frame :: "player \<Rightarrow> nat" where
  "frame p = (case animationFrame p of None \<Rightarrow> 0 | Some n \<Rightarrow> n)"

definition actualDirection :: "player \<Rightarrow> string" where
  "actualDirection p =
     (if direction p = ''left'' \<or> direction p = ''west'' then ''east'' else direction p)"


text \<open>\<open>avatar.frames[actualDirection]?.[frame]\<close>, with \<open>None\<close> for a value the guard \<open>!frameData\<close> rejects.\<close>

definition frameData :: "avatar_def \<Rightarrow> player \<Rightarrow> string option" where
  "frameData a p =
     (case frames a (actualDirection p) of
        None \<Rightarrow> None
      | Some fs \<Rightarrow>
          if frame p < length fs \<and> fs ! frame p \<noteq> [] then Some (fs ! frame p) else None)"

text \<open>A number in a template literal: its decimal digits.\<close>

definition digit :: "nat \<Rightarrow> char" where
  "digit d = ''0123456789'' ! d"

fun showNat :: "nat \<Rightarrow> string" where
  "showNat n = (if n < 10 then [digit n] else showNat (n div 10) @ [digit (n mod 10)])"

definition cacheKey :: "player \<Rightarrow> string" where
  "cacheKey p = avatar p @ ''_'' @ direction p @ ''_'' @ showNat (frame p)"

text \<open>
  \<open>renderAvatar\<close> up to its \<open>await\<close>: with the key in the cache the call paints at once
  (painting changes no field); otherwise \<open>loadAvatarImage\<close> starts a load and the call
  is suspended.
\<close>

definition renderAvatar :: "player \<Rightarrow> GameClient \<Rightarrow> GameClient" where
  "renderAvatar p s =
     (case avatars s (avatar p) of
        None \<Rightarrow> s
      | Some a \<Rightarrow>
          (case frameData a p of
             None \<Rightarrow> s
           | Some fd \<Rightarrow>
               if imageCache s (cacheKey p) \<noteq> None then s
               else s\<lparr>pending := pending s @ [(cacheKey p, fd)],
                      effects := effects s @ [ImageLoad fd]\<rparr>))"

text \<open>
  The load of the \<open>i\<close>-th suspended call completes (\<open>img.onload\<close>): the call resumes
  with \<open>this.imageCache.set(cacheKey, img)\<close>. The image is represented by the frame
  data it was loaded from.
\<close>

definition imageLoaded :: "nat \<Rightarrow> GameClient \<Rightarrow> GameClient" where
  "imageLoaded i s =
     (if i < length (pending s)
      then s\<lparr>imageCache := (imageCache s)(fst (pending s ! i) \<mapsto> snd (pending s ! i)),
             pending := take i (pending s) @ drop (Suc i) (pending s)\<rparr>
      else s)"

section \<open>Camera and render\<close>

definition updateCamera :: "GameClient \<Rightarrow> GameClient" where
  "updateCamera s =
     (case myPlayer s of
        None \<Rightarrow> s
      | Some r \<Rightarrow>
          let cx = player_x (heap s r) - canvasWidth s / 2;
              cy = player_y (heap s r) - canvasHeight s / 2
          in s\<lparr>cameraX := max 0 (min cx (worldWidth s - canvasWidth s)),
               cameraY := max 0 (min cy (worldHeight s - canvasHeight s))\<rparr>)"

definition worldToScreen :: "real \<Rightarrow> real \<Rightarrow> GameClient \<Rightarrow> real \<times> real" where
  "worldToScreen worldX worldY s = (worldX - cameraX s, worldY - cameraY s)"

text \<open>
  What \<open>renderAvatar\<close> reads, before its \<open>await\<close>, of an argument that is a number or a
  string: \<open>player.avatar\<close>, \<open>player.facing\<close> and \<open>player.animationFrame\<close> are all
  undefined, and the avatar is looked up under the key \<open>undefined\<close>.
\<close>

definition primitiveArgument :: player where
  "primitiveArgument = noPlayer\<lparr>avatar := ''undefined''\<rparr>"

text \<open>
  The first value the loop \<open>for (const playerId in this.players)\<close> of \<open>render\<close> hands to
  \<open>renderAvatar\<close>: the first own property in property order; with no own property,
  the first field of the prototype installed by \<open>__proto__\<close>, a number or string.
\<close>

definition firstRendered :: "GameClient \<Rightarrow> player option" where
  "firstRendered s =
     (case playersKeys s of
        k # ks \<Rightarrow> (case players s k of None \<Rightarrow> None | Some r \<Rightarrow> Some (heap s r))
      | [] \<Rightarrow> (case playersProto s of None \<Rightarrow> None | Some r \<Rightarrow> Some primitiveArgument))"

text \<open>
  \<open>render()\<close> as far as it runs inside the handler that calls it: the guard, the
  camera update, the repaint of the world, and the first call of \<open>renderAvatar\<close> of
  the loop up to that call's \<open>await\<close>. At \<open>await this.renderAvatar(...)\<close> the pass gives
  up control; the later calls of the loop are further steps \<open>renderAvatar\<close>, a
  completed load is a step \<open>imageLoaded\<close>.
\<close>

definition render :: "GameClient \<Rightarrow> GameClient" where
  "render s =
     (if \<not> worldImage s then s
      else
        let s1 = (updateCamera s)\<lparr>effects := effects s @ [RenderPass]\<rparr>
        in case firstRendered s1 of None \<Rightarrow> s1 | Some p \<Rightarrow> renderAvatar p s1)"

definition resize :: "real \<Rightarrow> real \<Rightarrow> GameClient \<Rightarrow> GameClient" where
  "resize innerWidth innerHeight s =
     render (updateCamera (s\<lparr>canvasWidth := innerWidth, canvasHeight := innerHeight\<rparr>))"

section \<open>Movement prediction and outbound messages\<close>

definition keyMap :: "(string \<times> string) list" where
  "keyMap = [(''ArrowUp'', ''up''), (''ArrowDown'', ''down''),
             (''ArrowLeft'', ''left''), (''ArrowRight'', ''right'')]"

text \<open>
  \<open>keyMap[keyCode]\<close> on the object literal: one of the four directions, or a property
  inherited from \<open>Object.prototype\<close>. The program compares a direction with \<open>===\<close> to
  string literals, tests it for truth, uses it as a property key and in a template
  literal; in all of these an inherited function or object acts as the string it
  converts to, which stands for it here.
\<close>

definition keyCodeToDirection :: "string \<Rightarrow> string option" where
  "keyCodeToDirection keyCode =
     (case map_of keyMap keyCode of
        Some d \<Rightarrow> Some d
      | None \<Rightarrow> map_of objectPrototype keyCode)"

definition moveSpeed :: real where
  "moveSpeed = 16"

definition calculateNewPosition :: "string \<Rightarrow> GameClient \<Rightarrow> real \<times> real" where
  "calculateNewPosition dir s =
     (case myPlayer s of
        None \<Rightarrow> (0, 0)
      | Some r \<Rightarrow>
          let newX = player_x (heap s r); newY = player_y (heap s r) in
          if dir = ''up'' then (newX, max 0 (player_y (heap s r) - moveSpeed))
          else if dir = ''down''
            then (newX, min (worldHeight s) (player_y (heap s r) + moveSpeed))
          else if dir = ''left'' then (max 0 (player_x (heap s r) - moveSpeed), newY)
          else if dir = ''right''
            then (min (worldWidth s) (player_x (heap s r) + moveSpeed), newY)
          else (newX, newY))"

text \<open>
  The \<open>switch\<close> of \<open>updateMyPosition\<close> on the object of \<open>this.myPlayer\<close>. The parameter
  \<open>direction\<close> of the source is written \<open>dir\<close> in this section.
\<close>

definition movePlayer :: "string \<Rightarrow> real \<Rightarrow> real \<Rightarrow> player \<Rightarrow> player" where
  "movePlayer dir w h p =
     (if dir = ''up'' then p\<lparr>player_y := max 0 (player_y p - moveSpeed)\<rparr>
      else if dir = ''down'' then p\<lparr>player_y := min h (player_y p + moveSpeed)\<rparr>
      else if dir = ''left'' then p\<lparr>player_x := max 0 (player_x p - moveSpeed)\<rparr>
      else if dir = ''right'' then p\<lparr>player_x := min w (player_x p + moveSpeed)\<rparr>
      else p)"

definition updateMyPosition :: "string \<Rightarrow> GameClient \<Rightarrow> GameClient" where
  "updateMyPosition dir s =
     (case myPlayer s of
        None \<Rightarrow> s
      | Some r \<Rightarrow>
          render (s\<lparr>heap := (heap s)
            (r := movePlayer dir (worldWidth s) (worldHeight s) (heap s r))\<rparr>))"

text \<open>
  \<open>sendMoveCommand\<close> once the socket guard and the direction guard have passed, up to
  and including \<open>this.isMoving = true\<close>: the facing is written, the new position is
  calculated, the message is handed to \<open>socket.send\<close>.
\<close>

definition moveMessageSent :: "string \<Rightarrow> GameClient \<Rightarrow> GameClient" where
  "moveMessageSent dir s =
     (let s1 = (case myPlayer s of
                  None \<Rightarrow> s
                | Some r \<Rightarrow> s\<lparr>heap := (heap s)(r := (heap s r)\<lparr>facing := Some dir\<rparr>)\<rparr>);
          newPosition = calculateNewPosition dir s1
      in s1\<lparr>effects := effects s1 @ [Sent (Move (fst newPosition) (snd newPosition))],
            lastSentDirection := Some dir, isMoving := True\<rparr>)"

definition sendMoveCommand :: "string \<Rightarrow> GameClient \<Rightarrow> GameClient" where
  "sendMoveCommand keyCode s =
     (if \<not> socketOpen s then s
      else case keyCodeToDirection keyCode of
             None \<Rightarrow> s
           | Some dir \<Rightarrow> updateMyPosition dir (moveMessageSent dir s))"

definition sendStopCommand :: "GameClient \<Rightarrow> GameClient" where
  "sendStopCommand s =
     (if \<not> socketOpen s then s
      else s\<lparr>effects := effects s @ [Sent Stop], lastSentDirection := None,
             isMoving := False\<rparr>)"

section \<open>Input\<close>

definition arrowKeys :: "string list" where
  "arrowKeys = [''ArrowUp'', ''ArrowDown'', ''ArrowLeft'', ''ArrowRight'']"

text \<open>
  \<open>obj[key] = v\<close> on a plain object: an existing property keeps its place, a new one is
  added last.
\<close>

fun assign :: "string \<Rightarrow> bool \<Rightarrow> (string \<times> bool) list \<Rightarrow> (string \<times> bool) list" where
  "assign k v [] = [(k, v)]"
| "assign k v ((k', v') # kvs) = (if k' = k then (k, v) # kvs else (k', v') # assign k v kvs)"

text \<open>The loop of \<open>sendMoveCommandForPressedKeys\<close> over \<open>Object.entries\<close>, with its \<open>break\<close>.\<close>

fun pressedKeysLoop :: "(string \<times> bool) list \<Rightarrow> GameClient \<Rightarrow> GameClient" where
  "pressedKeysLoop [] s = s"
| "pressedKeysLoop ((keyCode, isPressed) # entries) s =
     (if isPressed then sendMoveCommand keyCode s else pressedKeysLoop entries s)"

definition sendMoveCommandForPressedKeys :: "GameClient \<Rightarrow> GameClient" where
  "sendMoveCommandForPressedKeys s = pressedKeysLoop (pressedKeys s) s"

definition handleKeyDown :: "string \<Rightarrow> GameClient \<Rightarrow> GameClient" where
  "handleKeyDown code s =
     (if code \<notin> set arrowKeys then s
      else if map_of (pressedKeys s) code = Some True then s
      else sendMoveCommand code (s\<lparr>pressedKeys := assign code True (pressedKeys s)\<rparr>))"

definition handleKeyUp :: "string \<Rightarrow> GameClient \<Rightarrow> GameClient" where
  "handleKeyUp code s =
     (if code \<notin> set arrowKeys then s
      else
        let s1 = s\<lparr>pressedKeys := assign code False (pressedKeys s)\<rparr>;
            anyKeyPressed = list_ex (\<lambda>pressed. pressed) (map snd (pressedKeys s1))
        in if \<not> anyKeyPressed then sendStopCommand s1
           else sendMoveCommandForPressedKeys s1)"

section \<open>Inbound messages\<close>

text \<open>
  In the \<open>join_game\<close> case \<open>this.players[this.myPlayerId]\<close> is read from the object of
  the reply. A reply whose \<open>playerId\<close> is no key of its \<open>players\<close> but the name of a
  property of \<open>Object.prototype\<close> would make a built-in function the controlled
  player, with undefined coordinates; such a value has no place among the numbers of
  this model, and the case is taken like a missing player.
\<close>

definition handleServerMessage :: "in_msg \<Rightarrow> GameClient \<Rightarrow> GameClient" where
  "handleServerMessage message s =
     render
       (case message of
          JoinGameOk playerId mkeys mplayers mavatars \<Rightarrow>
            (let s1 = s\<lparr>myPlayerId := Some playerId, players := mplayers,
                         playersKeys := mkeys, playersProto := None,
                         avatars := mavatars\<rparr>
             in updateCamera
                  (s1\<lparr>myPlayer := (case lookupPlayers s1 playerId of
                                      Object r \<Rightarrow> Some r | _ \<Rightarrow> None)\<rparr>))
        | JoinGameFail err \<Rightarrow> s
        | PlayerJoined p a \<Rightarrow>
            (setPlayer (player_id (heap s p)) p s)
              \<lparr>avatars := (avatars s)(avatar_name a \<mapsto> a)\<rparr>
        | PlayersMoved mkeys mplayers \<Rightarrow> assignPlayers mkeys mplayers s
        | PlayerLeft playerId \<Rightarrow> deletePlayer playerId s
        | MoveAck success err \<Rightarrow> s
        | StopAck success err \<Rightarrow> s
        | Unknown action \<Rightarrow> s)"

text \<open>
  \<open>JSON.parse\<close> builds new objects: every player object of a message gets an address
  that no field of the client holds yet. The parsed map of players has
  \<open>Object.prototype\<close> as its prototype and every key of the text as an own property,
  \<open>__proto__\<close> too; of two pairs with the same key the later value stays, at the place
  of the first.
\<close>

definition alloc :: "player \<Rightarrow> GameClient \<Rightarrow> ref \<times> GameClient" where
  "alloc p s = (nextRef s, s\<lparr>heap := (heap s)(nextRef s := p), nextRef := Suc (nextRef s)\<rparr>)"

fun allocPlayers ::
  "(string \<times> player) list \<Rightarrow> string list \<Rightarrow> (string \<rightharpoonup> ref) \<Rightarrow> GameClient \<Rightarrow>
     string list \<times> (string \<rightharpoonup> ref) \<times> GameClient" where
  "allocPlayers [] ks m s = (ks, m, s)"
| "allocPlayers ((k, p) # kps) ks m s =
     (case alloc p s of
        (r, s') \<Rightarrow>
          allocPlayers kps (if m k = None then insertKey k ks else ks) (m(k \<mapsto> r)) s')"

fun JSON_parse :: "wire_msg \<Rightarrow> GameClient \<Rightarrow> in_msg \<times> GameClient" where
  "JSON_parse (WJoinGameOk playerId kps mavatars) s =
     (case allocPlayers kps [] Map.empty s of
        (ks, m, s') \<Rightarrow> (JoinGameOk playerId ks m mavatars, s'))"
| "JSON_parse (WJoinGameFail err) s = (JoinGameFail err, s)"
| "JSON_parse (WPlayerJoined p a) s = (case alloc p s of (r, s') \<Rightarrow> (PlayerJoined r a, s'))"
| "JSON_parse (WPlayersMoved kps) s =
     (case allocPlayers kps [] Map.empty s of (ks, m, s') \<Rightarrow> (PlayersMoved ks m, s'))"
| "JSON_parse (WPlayerLeft playerId) s = (PlayerLeft playerId, s)"
| "JSON_parse (WMoveAck success err) s = (MoveAck success err, s)"
| "JSON_parse (WStopAck success err) s = (StopAck success err, s)"
| "JSON_parse (WUnknown action) s = (Unknown action, s)"

text \<open>\<open>socket.onmessage\<close>: \<open>this.handleServerMessage(JSON.parse(event.data))\<close>.\<close>

definition onmessage :: "wire_msg \<Rightarrow> GameClient \<Rightarrow> GameClient" where
  "onmessage w s = (case JSON_parse w s of (message, s') \<Rightarrow> handleServerMessage message s')"

section \<open>Observations used in the statements\<close>

text \<open>The messages handed to \<open>socket.send\<close>, in order.\<close>

definition sentMessages :: "effect list \<Rightarrow> out_msg list" where
  "sentMessages es = concat (map (\<lambda>e. case e of Sent m \<Rightarrow> [m] | _ \<Rightarrow> []) es)"

text \<open>
  The specification's reading of the input state: a key is held when its entry of
  \<open>pressedKeys\<close> is true, and of several held keys the first in the fixed order up, down,
  left, right counts.
\<close>

definition held :: "GameClient \<Rightarrow> string \<Rightarrow> bool" where
  "held s k = (map_of (pressedKeys s) k = Some True)"

definition firstHeldKey :: "GameClient \<Rightarrow> string option" where
  "firstHeldKey s =
     (if held s ''ArrowUp'' then Some ''ArrowUp''
      else if held s ''ArrowDown'' then Some ''ArrowDown''
      else if held s ''ArrowLeft'' then Some ''ArrowLeft''
      else if held s ''ArrowRight'' then Some ''ArrowRight''
      else None)"

definition firstHeldDirection :: "GameClient \<Rightarrow> string option" where
  "firstHeldDirection s =
     (if held s ''ArrowUp'' then Some ''up''
      else if held s ''ArrowDown'' then Some ''down''
      else if held s ''ArrowLeft'' then Some ''left''
      else if held s ''ArrowRight'' then Some ''right''
      else None)"

section \<open>Example states\<close>

text \<open>
  The scenario of the specification: the socket opens, the client sends \<open>join_game\<close>,
  the server answers with player \<open>p1\<close> at a given position and one avatar. The window
  is 800 by 600. In \<open>upLeftHeld\<close> the keys up and left have been pressed in this order,
  in \<open>downRightHeld\<close> the keys right and down; in \<open>serverMoved\<close> the server has sent
  \<open>players_moved\<close> with \<open>p1\<close> at (110, 100), in \<open>protoMoved\<close> a \<open>players_moved\<close> whose only
  player id is \<open>__proto__\<close>.
\<close>

definition playerAt :: "real \<Rightarrow> real \<Rightarrow> player" where
  "playerAt px py = \<lparr>player_id = ''p1'', player_x = px, player_y = py, facing = Some ''south'',
     animationFrame = Some 0, username = ''Jadon'', avatar = ''knight''\<rparr>"

definition knight :: avatar_def where
  "knight = \<lparr>avatar_name = ''knight'',
     frames = [''north'' \<mapsto> [''n0'', ''n1''], ''south'' \<mapsto> [''s0'', ''s1''],
               ''east'' \<mapsto> [''e0'', ''e1'']]\<rparr>"

definition joinedAt :: "real \<Rightarrow> real \<Rightarrow> GameClient" where
  "joinedAt px py =
     onmessage (WJoinGameOk ''p1'' [(''p1'', playerAt px py)] [''knight'' \<mapsto> knight])
       (onopen (constructor 800 600))"

definition upLeftHeld :: GameClient where
  "upLeftHeld = handleKeyDown ''ArrowLeft'' (handleKeyDown ''ArrowUp'' (joinedAt 100 100))"

definition downRightHeld :: GameClient where
  "downRightHeld = handleKeyDown ''ArrowDown'' (handleKeyDown ''ArrowRight'' (joinedAt 100 100))"

definition serverMoved :: GameClient where
  "serverMoved = onmessage (WPlayersMoved [(''p1'', playerAt 110 100)]) (joinedAt 100 100)"

definition protoMoved :: GameClient where
  "protoMoved =
     onmessage (WPlayersMoved [(''__proto__'', (playerAt 110 100)\<lparr>player_id := ''__proto__''\<rparr>)])
       (joinedAt 100 100)"

section \<open>Auxiliary facts\<close>

declare showNat.simps [simp del]

lemma insertKey_examples:
  "insertKey ''9'' [''10'', ''p1''] = [''9'', ''10'', ''p1'']"
  "insertKey ''q'' [''10'', ''p1''] = [''10'', ''p1'', ''q'']"
  by (simp_all add: isIndexKey_def isDigit_def indexValue_def digitValue_def)

lemma sentMessages_simps:
  "sentMessages (es @ fs) = sentMessages es @ sentMessages fs"
  "sentMessages [] = []"
  "sentMessages (Sent m # es) = m # sentMessages es"
  "sentMessages (RenderPass # es) = sentMessages es"
  "sentMessages (ImageLoad d # es) = sentMessages es"
  by (simp_all add: sentMessages_def)

lemma renderAvatar_fields:
  "players (renderAvatar p s) = players s" "playersKeys (renderAvatar p s) = playersKeys s"
  "playersProto (renderAvatar p s) = playersProto s"
  "heap (renderAvatar p s) = heap s" "myPlayer (renderAvatar p s) = myPlayer s"
  "nextRef (renderAvatar p s) = nextRef s" "myPlayerId (renderAvatar p s) = myPlayerId s"
  "worldWidth (renderAvatar p s) = worldWidth s" "worldHeight (renderAvatar p s) = worldHeight s"
  "canvasWidth (renderAvatar p s) = canvasWidth s"
  "canvasHeight (renderAvatar p s) = canvasHeight s"
  "worldImage (renderAvatar p s) = worldImage s" "socketOpen (renderAvatar p s) = socketOpen s"
  "pressedKeys (renderAvatar p s) = pressedKeys s" "avatars (renderAvatar p s) = avatars s"
  "imageCache (renderAvatar p s) = imageCache s"
  "lastSentDirection (renderAvatar p s) = lastSentDirection s"
  "isMoving (renderAvatar p s) = isMoving s"
  "cameraX (renderAvatar p s) = cameraX s" "cameraY (renderAvatar p s) = cameraY s"
  "sentMessages (effects (renderAvatar p s)) = sentMessages (effects s)"
  by (simp_all add: renderAvatar_def sentMessages_simps split: option.split)

lemma updateCamera_fields:
  "players (updateCamera s) = players s" "playersKeys (updateCamera s) = playersKeys s"
  "playersProto (updateCamera s) = playersProto s" "heap (updateCamera s) = heap s"
  "myPlayer (updateCamera s) = myPlayer s" "nextRef (updateCamera s) = nextRef s"
  "myPlayerId (updateCamera s) = myPlayerId s" "effects (updateCamera s) = effects s"
  "worldWidth (updateCamera s) = worldWidth s" "worldHeight (updateCamera s) = worldHeight s"
  "canvasWidth (updateCamera s) = canvasWidth s" "canvasHeight (updateCamera s) = canvasHeight s"
  "worldImage (updateCamera s) = worldImage s" "socketOpen (updateCamera s) = socketOpen s"
  "pressedKeys (updateCamera s) = pressedKeys s" "avatars (updateCamera s) = avatars s"
  "imageCache (updateCamera s) = imageCache s" "pending (updateCamera s) = pending s"
  "lastSentDirection (updateCamera s) = lastSentDirection s"
  "isMoving (updateCamera s) = isMoving s"
  by (simp_all add: updateCamera_def Let_def split: option.split)

lemma render_fields:
  "players (render s) = players s" "playersKeys (render s) = playersKeys s"
  "playersProto (render s) = playersProto s"
  "heap (render s) = heap s" "myPlayer (render s) = myPlayer s"
  "nextRef (render s) = nextRef s" "myPlayerId (render s) = myPlayerId s"
  "worldWidth (render s) = worldWidth s" "worldHeight (render s) = worldHeight s"
  "canvasWidth (render s) = canvasWidth s" "canvasHeight (render s) = canvasHeight s"
  "worldImage (render s) = worldImage s" "socketOpen (render s) = socketOpen s"
  "pressedKeys (render s) = pressedKeys s" "avatars (render s) = avatars s"
  "imageCache (render s) = imageCache s"
  "lastSentDirection (render s) = lastSentDirection s" "isMoving (render s) = isMoving s"
  "sentMessages (effects (render s)) = sentMessages (effects s)"
  by (simp_all add: render_def Let_def renderAvatar_fields updateCamera_fields
      sentMessages_simps split: option.split)

lemma render_camera:
  "cameraX (render s) = (if worldImage s then cameraX (updateCamera s) else cameraX s)"
  "cameraY (render s) = (if worldImage s then cameraY (updateCamera s) else cameraY s)"
  by (simp_all add: render_def Let_def renderAvatar_fields split: option.split)

lemma cacheKey_playerAt: "cacheKey (playerAt px py) = ''knight_south_0''"
  by (simp add: cacheKey_def playerAt_def direction_def frame_def showNat.simps digit_def)

lemma frameData_playerAt: "frameData knight (playerAt px py) = Some ''s0''"
  by (simp add: frameData_def knight_def actualDirection_def direction_def frame_def
      playerAt_def)

lemma isIndexKey_examples: "\<not> isIndexKey ''p1''" "\<not> isIndexKey ''__proto__''"
  by (simp_all add: isIndexKey_def isDigit_def)

lemma joinedAt_eq:
  "joinedAt px py =
     \<lparr>worldImage = True, worldWidth = 2048, worldHeight = 2048,
      players = [''p1'' \<mapsto> 0], playersKeys = [''p1''], playersProto = None,
      avatars = [''knight'' \<mapsto> knight],
      myPlayerId = Some ''p1'', myPlayer = Some 0, imageCache = Map.empty,
      pressedKeys = [(''ArrowUp'', False), (''ArrowDown'', False),
                     (''ArrowLeft'', False), (''ArrowRight'', False)],
      lastSentDirection = None, isMoving = False,
      cameraX = max 0 (min (px - 400) 1248), cameraY = max 0 (min (py - 300) 1448),
      socketOpen = True, canvasWidth = 800, canvasHeight = 600,
      heap = (\<lambda>r. noPlayer)(0 := playerAt px py), nextRef = 1,
      pending = [(''knight_south_0'', ''s0'')],
      effects = [Sent (JoinGame ''Jadon''), RenderPass, ImageLoad ''s0'']\<rparr>"
  by (simp add: joinedAt_def onmessage_def onopen_def joinGame_def constructor_def alloc_def
      handleServerMessage_def render_def updateCamera_def Let_def lookupPlayers_def
      firstRendered_def renderAvatar_def cacheKey_playerAt frameData_playerAt)
    (simp add: playerAt_def)

lemma movePlayer_bounds:
  assumes "0 \<le> player_x p" "player_x p \<le> w" "0 \<le> player_y p" "player_y p \<le> h"
  shows "0 \<le> player_x (movePlayer d w h p) \<and> player_x (movePlayer d w h p) \<le> w \<and>
         0 \<le> player_y (movePlayer d w h p) \<and> player_y (movePlayer d w h p) \<le> h"
  using assms by (simp add: movePlayer_def moveSpeed_def)

lemma updateMyPosition_heap:
  "myPlayer s = Some r \<Longrightarrow>
     heap (updateMyPosition d s) =
       (heap s)(r := movePlayer d (worldWidth s) (worldHeight s) (heap s r))"
  by (simp add: updateMyPosition_def render_fields)

lemma updateMyPosition_fields:
  "myPlayer (updateMyPosition d s) = myPlayer s"
  "players (updateMyPosition d s) = players s"
  "playersKeys (updateMyPosition d s) = playersKeys s"
  "playersProto (updateMyPosition d s) = playersProto s"
  "worldWidth (updateMyPosition d s) = worldWidth s"
  "worldHeight (updateMyPosition d s) = worldHeight s"
  "socketOpen (updateMyPosition d s) = socketOpen s"
  "pressedKeys (updateMyPosition d s) = pressedKeys s"
  "lastSentDirection (updateMyPosition d s) = lastSentDirection s"
  "isMoving (updateMyPosition d s) = isMoving s"
  "myPlayerId (updateMyPosition d s) = myPlayerId s"
  "sentMessages (effects (updateMyPosition d s)) = sentMessages (effects s)"
  by (simp_all add: updateMyPosition_def render_fields split: option.split)

lemma up_iterated:
  "myPlayer s = Some r \<Longrightarrow> player_y (heap s r) = 5 \<Longrightarrow>
     myPlayer ((updateMyPosition ''up'' ^^ Suc n) s) = Some r \<and>
     player_y (heap ((updateMyPosition ''up'' ^^ Suc n) s) r) = 0"
proof (induction n)
  case 0
  then show ?case
    by (simp add: updateMyPosition_heap updateMyPosition_fields movePlayer_def moveSpeed_def)
next
  case (Suc n)
  define t where "t = (updateMyPosition ''up'' ^^ Suc n) s"
  from Suc have t: "myPlayer t = Some r" "player_y (heap t r) = 0" by (simp_all add: t_def)
  have "(updateMyPosition ''up'' ^^ Suc (Suc n)) s = updateMyPosition ''up'' t"
    by (simp add: t_def)
  then show ?case using t
    by (simp add: updateMyPosition_heap updateMyPosition_fields movePlayer_def moveSpeed_def)
qed

lemma calculateNewPosition_facing:
  "calculateNewPosition d (s\<lparr>heap := (heap s)(r := (heap s r)\<lparr>facing := f\<rparr>)\<rparr>) =
     calculateNewPosition d s"
  by (simp add: calculateNewPosition_def Let_def split: option.split)

lemma calculateNewPosition_cong:
  "myPlayer t = myPlayer s \<Longrightarrow> heap t = heap s \<Longrightarrow> worldWidth t = worldWidth s \<Longrightarrow>
     worldHeight t = worldHeight s \<Longrightarrow> calculateNewPosition d t = calculateNewPosition d s"
  by (simp add: calculateNewPosition_def Let_def split: option.split)

lemma moveMessageSent_effects:
  "effects (moveMessageSent d s) =
     effects s @ [Sent (Move (fst (calculateNewPosition d s)) (snd (calculateNewPosition d s)))]"
  by (simp add: moveMessageSent_def Let_def calculateNewPosition_facing split: option.split)

lemma moveMessageSent_fields:
  "myPlayer (moveMessageSent d s) = myPlayer s"
  "players (moveMessageSent d s) = players s"
  "playersKeys (moveMessageSent d s) = playersKeys s"
  "playersProto (moveMessageSent d s) = playersProto s"
  "worldImage (moveMessageSent d s) = worldImage s"
  "worldWidth (moveMessageSent d s) = worldWidth s"
  "worldHeight (moveMessageSent d s) = worldHeight s"
  "socketOpen (moveMessageSent d s) = socketOpen s"
  "pressedKeys (moveMessageSent d s) = pressedKeys s"
  "lastSentDirection (moveMessageSent d s) = Some d"
  "isMoving (moveMessageSent d s) = True"
  by (simp_all add: moveMessageSent_def Let_def split: option.split)

lemma moveMessageSent_heap:
  "myPlayer s = Some r \<Longrightarrow>
     heap (moveMessageSent d s) = (heap s)(r := (heap s r)\<lparr>facing := Some d\<rparr>)"
  by (simp add: moveMessageSent_def Let_def)

lemma sendMoveCommand_open:
  "socketOpen s \<Longrightarrow> keyCodeToDirection k = Some d \<Longrightarrow>
     sendMoveCommand k s = updateMyPosition d (moveMessageSent d s)"
  by (simp add: sendMoveCommand_def)

lemma sendMoveCommand_fields:
  "myPlayer (sendMoveCommand k s) = myPlayer s"
  "players (sendMoveCommand k s) = players s"
  "playersKeys (sendMoveCommand k s) = playersKeys s"
  "playersProto (sendMoveCommand k s) = playersProto s"
  "socketOpen (sendMoveCommand k s) = socketOpen s"
  "pressedKeys (sendMoveCommand k s) = pressedKeys s"
  "worldWidth (sendMoveCommand k s) = worldWidth s"
  "worldHeight (sendMoveCommand k s) = worldHeight s"
  by (simp_all add: sendMoveCommand_def updateMyPosition_fields moveMessageSent_fields
      split: option.split)

lemma sendMoveCommand_sent:
  assumes "socketOpen s" "keyCodeToDirection k = Some d"
  shows "sentMessages (effects (sendMoveCommand k s)) =
           sentMessages (effects s) @
             [Move (fst (calculateNewPosition d s)) (snd (calculateNewPosition d s))]"
    and "lastSentDirection (sendMoveCommand k s) = Some d"
    and "isMoving (sendMoveCommand k s)"
  using assms
  by (simp_all add: sendMoveCommand_open updateMyPosition_fields moveMessageSent_effects
      sentMessages_simps moveMessageSent_fields)

lemma sendStopCommand_sent:
  assumes "socketOpen s"
  shows "sentMessages (effects (sendStopCommand s)) = sentMessages (effects s) @ [Stop]"
    and "lastSentDirection (sendStopCommand s) = None"
    and "\<not> isMoving (sendStopCommand s)"
  using assms by (simp_all add: sendStopCommand_def sentMessages_simps)

lemma arrow_directions:
  "keyCodeToDirection ''ArrowUp'' = Some ''up''"
  "keyCodeToDirection ''ArrowDown'' = Some ''down''"
  "keyCodeToDirection ''ArrowLeft'' = Some ''left''"
  "keyCodeToDirection ''ArrowRight'' = Some ''right''"
  by (simp_all add: keyCodeToDirection_def keyMap_def)

lemma sendMoveCommand_heap:
  assumes "socketOpen s" "myPlayer s = Some r" "keyCodeToDirection k = Some d"
  shows "heap (sendMoveCommand k s) =
     (heap s)(r := movePlayer d (worldWidth s) (worldHeight s) ((heap s r)\<lparr>facing := Some d\<rparr>))"
proof -
  have m1: "myPlayer (moveMessageSent d s) = Some r"
    using assms(2) by (simp add: moveMessageSent_fields)
  show ?thesis
    using assms
    by (simp add: sendMoveCommand_open updateMyPosition_heap[OF m1]
        moveMessageSent_heap moveMessageSent_fields)
qed

lemma right_from_joined:
  "sendMoveCommand ''ArrowRight'' (joinedAt 100 100) =
     (joinedAt 100 100)\<lparr>heap := (\<lambda>r. noPlayer)(0 := (playerAt 116 100)\<lparr>facing := Some ''right''\<rparr>),
        lastSentDirection := Some ''right'', isMoving := True,
        effects := [Sent (JoinGame ''Jadon''), RenderPass, ImageLoad ''s0'',
                    Sent (Move 116 100), RenderPass]\<rparr>"
  by (simp add: joinedAt_eq sendMoveCommand_def arrow_directions
      moveMessageSent_def calculateNewPosition_def updateMyPosition_def movePlayer_def
      moveSpeed_def render_def updateCamera_def Let_def playerAt_def firstRendered_def
      renderAvatar_def knight_def frameData_def actualDirection_def direction_def)

lemma joined_hyps:
  "socketOpen (joinedAt px py)" "myPlayer (joinedAt px py) = Some 0"
  by (simp_all add: joinedAt_eq)

lemma serverMoved_eq:
  "serverMoved =
     (joinedAt 100 100)\<lparr>players := [''p1'' \<mapsto> 1],
        heap := (\<lambda>r. noPlayer)(0 := playerAt 100 100, 1 := playerAt 110 100),
        nextRef := 2,
        pending := [(''knight_south_0'', ''s0''), (''knight_south_0'', ''s0'')],
        effects := [Sent (JoinGame ''Jadon''), RenderPass, ImageLoad ''s0'',
                    RenderPass, ImageLoad ''s0'']\<rparr>"
  by (simp add: serverMoved_def joinedAt_eq onmessage_def alloc_def handleServerMessage_def
      setPlayer_def render_def updateCamera_def Let_def firstRendered_def renderAvatar_def
      cacheKey_playerAt frameData_playerAt)
    (simp add: playerAt_def)

lemma protoMoved_eq:
  "protoMoved =
     (joinedAt 100 100)\<lparr>playersProto := Some 1,
        heap := (\<lambda>r. noPlayer)(0 := playerAt 100 100,
                  1 := (playerAt 110 100)\<lparr>player_id := ''__proto__''\<rparr>),
        nextRef := 2,
        pending := [(''knight_south_0'', ''s0''), (''knight_south_0'', ''s0'')],
        effects := [Sent (JoinGame ''Jadon''), RenderPass, ImageLoad ''s0'',
                    RenderPass, ImageLoad ''s0'']\<rparr>"
  by (simp add: protoMoved_def joinedAt_eq onmessage_def alloc_def handleServerMessage_def
      setPlayer_def render_def updateCamera_def Let_def firstRendered_def renderAvatar_def
      cacheKey_playerAt frameData_playerAt isIndexKey_examples)
    (simp add: playerAt_def)

lemma renderAvatar_joined:
  "renderAvatar (playerAt 100 100) (joinedAt 100 100) =
     (joinedAt 100 100)\<lparr>pending := [(''knight_south_0'', ''s0''), (''knight_south_0'', ''s0'')],
        effects := [Sent (JoinGame ''Jadon''), RenderPass, ImageLoad ''s0'', ImageLoad ''s0'']\<rparr>"
  by (simp add: renderAvatar_def joinedAt_eq cacheKey_playerAt frameData_playerAt)
    (simp add: playerAt_def)

lemma cacheKey_p1: "cacheKey (playerAt 100 100) = ''knight_south_0''"
  by (rule cacheKey_playerAt)

lemma arrow_entries:
  assumes "map fst ks = arrowKeys"
  shows "\<exists>a b c d. ks = [(''ArrowUp'', a), (''ArrowDown'', b), (''ArrowLeft'', c),
           (''ArrowRight'', d)]"
proof -
  from assms obtain w x y z where ks: "ks = [w, x, y, z]"
    and f: "fst w = ''ArrowUp''" "fst x = ''ArrowDown''" "fst y = ''ArrowLeft''"
      "fst z = ''ArrowRight''"
    by (auto simp: arrowKeys_def map_eq_Cons_conv)
  have "w = (''ArrowUp'', snd w)" "x = (''ArrowDown'', snd x)" "y = (''ArrowLeft'', snd y)"
    "z = (''ArrowRight'', snd z)"
    using f by (simp_all add: prod_eq_iff)
  with ks show ?thesis by metis
qed

lemma handleKeyUp_entries:
  assumes ks: "pressedKeys s = [(''ArrowUp'', a), (''ArrowDown'', b), (''ArrowLeft'', c),
           (''ArrowRight'', d)]"
    and code: "code \<in> set arrowKeys"
  shows "handleKeyUp code s =
           (case firstHeldKey (s\<lparr>pressedKeys := assign code False (pressedKeys s)\<rparr>) of
              None \<Rightarrow> sendStopCommand (s\<lparr>pressedKeys := assign code False (pressedKeys s)\<rparr>)
            | Some k \<Rightarrow> sendMoveCommand k (s\<lparr>pressedKeys := assign code False (pressedKeys s)\<rparr>))"
    and "map fst (assign code False (pressedKeys s)) = arrowKeys"
    and "\<And>k. map_of (assign code False (pressedKeys s)) k = ((map_of (pressedKeys s))(code \<mapsto> False)) k"
proof -
  from code consider "code = ''ArrowUp''" | "code = ''ArrowDown''" | "code = ''ArrowLeft''"
    | "code = ''ArrowRight''"
    by (auto simp: arrowKeys_def)
  then show "handleKeyUp code s =
           (case firstHeldKey (s\<lparr>pressedKeys := assign code False (pressedKeys s)\<rparr>) of
              None \<Rightarrow> sendStopCommand (s\<lparr>pressedKeys := assign code False (pressedKeys s)\<rparr>)
            | Some k \<Rightarrow> sendMoveCommand k (s\<lparr>pressedKeys := assign code False (pressedKeys s)\<rparr>))"
    by cases
      (simp_all add: handleKeyUp_def arrowKeys_def ks firstHeldKey_def held_def
        sendMoveCommandForPressedKeys_def Let_def)
  show "map fst (assign code False (pressedKeys s)) = arrowKeys"
    using code by (auto simp: arrowKeys_def ks)
  show "\<And>k. map_of (assign code False (pressedKeys s)) k = ((map_of (pressedKeys s))(code \<mapsto> False)) k"
    using code by (auto simp: arrowKeys_def ks)
qed

lemma firstHeldDirection_key:
  "firstHeldDirection s =
     (case firstHeldKey s of None \<Rightarrow> None | Some k \<Rightarrow> keyCodeToDirection k)"
  by (simp add: firstHeldDirection_def firstHeldKey_def arrow_directions)

lemma upLeftHeld_fields:
  "pressedKeys upLeftHeld = [(''ArrowUp'', True), (''ArrowDown'', False),
     (''ArrowLeft'', True), (''ArrowRight'', False)]"
  "socketOpen upLeftHeld"
  by (simp_all add: upLeftHeld_def handleKeyDown_def sendMoveCommand_fields joinedAt_eq
      arrowKeys_def)

lemma downRightHeld_fields:
  "pressedKeys downRightHeld = [(''ArrowUp'', False), (''ArrowDown'', True),
     (''ArrowLeft'', False), (''ArrowRight'', True)]"
  "socketOpen downRightHeld" "myPlayer downRightHeld = Some 0"
  "worldWidth downRightHeld = 2048" "worldHeight downRightHeld = 2048"
  by (simp_all add: downRightHeld_def handleKeyDown_def sendMoveCommand_fields joinedAt_eq
      arrowKeys_def)

lemma downRightHeld_player:
  "heap downRightHeld 0 = (playerAt 116 116)\<lparr>facing := Some ''down''\<rparr>"
proof -
  define s1 where "s1 = (joinedAt 100 100)\<lparr>pressedKeys := assign ''ArrowRight'' True
      (pressedKeys (joinedAt 100 100))\<rparr>"
  define s2 where "s2 = sendMoveCommand ''ArrowRight'' s1"
  define s3 where "s3 = s2\<lparr>pressedKeys := assign ''ArrowDown'' True (pressedKeys s2)\<rparr>"
  have a: "socketOpen s1" "myPlayer s1 = Some 0" "heap s1 0 = playerAt 100 100"
    "worldWidth s1 = 2048" "worldHeight s1 = 2048"
    by (simp_all add: s1_def joinedAt_eq)
  have h2: "heap s2 0 = (playerAt 116 100)\<lparr>facing := Some ''right''\<rparr>"
    unfolding s2_def
    by (simp add: sendMoveCommand_heap[OF a(1,2) arrow_directions(4)] a movePlayer_def
        moveSpeed_def playerAt_def)
  have b: "socketOpen s3" "myPlayer s3 = Some 0" "heap s3 0 = heap s2 0"
    "worldWidth s3 = 2048" "worldHeight s3 = 2048"
    by (simp_all add: s3_def s2_def sendMoveCommand_fields a)
  have d: "downRightHeld = sendMoveCommand ''ArrowDown'' s3"
    by (simp add: downRightHeld_def handleKeyDown_def arrowKeys_def s1_def s2_def s3_def
        joinedAt_eq sendMoveCommand_fields)
  show ?thesis
    unfolding d
    by (simp add: sendMoveCommand_heap[OF b(1,2) arrow_directions(2)] b h2 movePlayer_def
        moveSpeed_def playerAt_def)
qed

lemma movePlayer_position:
  "movePlayer d w h p =
     p\<lparr>player_x := player_x (movePlayer d w h p), player_y := player_y (movePlayer d w h p)\<rparr>"
  by (simp add: movePlayer_def)

lemma calculateNewPosition_movePlayer:
  "myPlayer s = Some r \<Longrightarrow>
     calculateNewPosition d s =
       (player_x (movePlayer d (worldWidth s) (worldHeight s) (heap s r)),
        player_y (movePlayer d (worldWidth s) (worldHeight s) (heap s r)))"
  by (simp add: calculateNewPosition_def movePlayer_def Let_def)

lemma movePlayer_facing:
  "movePlayer d w h (p\<lparr>facing := f\<rparr>) = (movePlayer d w h p)\<lparr>facing := f\<rparr>"
  by (simp add: movePlayer_def)

text \<open>
  The four arrow keys stay the properties of \<open>pressedKeys\<close>, in the order of the
  constructor.
\<close>

lemma pressedKeysLoop_pressedKeys:
  "pressedKeys (pressedKeysLoop entries s) = pressedKeys s"
  by (induction entries) (auto simp: sendMoveCommand_fields)

lemma assign_keys:
  "k \<in> set (map fst kvs) \<Longrightarrow> map fst (assign k v kvs) = map fst kvs"
  by (induction kvs) force+

lemma pressedKeys_order_kept:
  assumes "map fst (pressedKeys s) = arrowKeys"
  shows "map fst (pressedKeys (handleKeyDown code s)) = arrowKeys"
    and "map fst (pressedKeys (handleKeyUp code s)) = arrowKeys"
    and "map fst (pressedKeys (constructor w h)) = arrowKeys"
proof -
  have a: "map fst (assign code v (pressedKeys s)) = arrowKeys" if "code \<in> set arrowKeys" for v
    using assign_keys[of code "pressedKeys s" v] that assms by simp
  show "map fst (pressedKeys (handleKeyDown code s)) = arrowKeys"
    using assms a by (simp add: handleKeyDown_def sendMoveCommand_fields)
  show "map fst (pressedKeys (handleKeyUp code s)) = arrowKeys"
    using assms a
    by (simp add: handleKeyUp_def Let_def sendStopCommand_def
        sendMoveCommandForPressedKeys_def pressedKeysLoop_pressedKeys)
  show "map fst (pressedKeys (constructor w h)) = arrowKeys"
    by (simp add: constructor_def arrowKeys_def)
qed

section \<open>Inbound \<open>players_moved\<close>: overwrite per included player\<close>

text \<open>
  For a message without the id \<open>__proto__\<close> (or a store that has this id as an own
  property) \<open>Object.assign\<close> is the overwrite per included player: every id of the
  message gets the message's object, every other own property, the prototype and
  every object stay as they are.
\<close>

lemma setPlayer_own:
  assumes "k \<noteq> ''__proto__'' \<or> players s ''__proto__'' \<noteq> None"
  shows "players (setPlayer k r s) = (players s)(k \<mapsto> r)"
    and "playersProto (setPlayer k r s) = playersProto s"
    and "heap (setPlayer k r s) = heap s"
  using assms by (auto simp: setPlayer_def)

lemma assignPlayers_own:
  assumes "''__proto__'' \<notin> set ks \<or> players s ''__proto__'' \<noteq> None"
  shows "players (assignPlayers ks m s) = players s ++ (m |` set ks) \<and>
         playersProto (assignPlayers ks m s) = playersProto s \<and>
         heap (assignPlayers ks m s) = heap s"
  using assms
proof (induction ks arbitrary: s)
  case Nil
  then show ?case by simp
next
  case (Cons k ks)
  show ?case
  proof (cases "m k")
    case None
    have "''__proto__'' \<notin> set ks \<or> players s ''__proto__'' \<noteq> None"
      using Cons.prems by auto
    from Cons.IH[OF this] None show ?thesis
      by (auto simp: map_add_def restrict_map_def fun_eq_iff split: option.splits)
  next
    case (Some r)
    have k: "k \<noteq> ''__proto__'' \<or> players s ''__proto__'' \<noteq> None"
      using Cons.prems by auto
    note sp = setPlayer_own[OF k, of r]
    have "''__proto__'' \<notin> set ks \<or> players (setPlayer k r s) ''__proto__'' \<noteq> None"
      using Cons.prems by (auto simp: sp)
    from Cons.IH[OF this] Some show ?thesis
      by (auto simp: sp map_add_def restrict_map_def fun_eq_iff split: option.splits)
  qed
qed

lemma players_moved_own_keys:
  assumes "''__proto__'' \<notin> set ks \<or> players s ''__proto__'' \<noteq> None"
  shows "players (handleServerMessage (PlayersMoved ks m) s) = players s ++ (m |` set ks)"
    and "playersProto (handleServerMessage (PlayersMoved ks m) s) = playersProto s"
    and "heap (handleServerMessage (PlayersMoved ks m) s) = heap s"
  using assignPlayers_own[OF assms, of m]
  by (simp_all add: handleServerMessage_def render_fields)

text \<open>
  Claim C1. The claim is that after \<open>players_moved\<close> the store entry of every id of the
  message is the message's object and the entry of every other id is unchanged. The
  code misses the id \<open>__proto__\<close>: the assignment of \<open>Object.assign\<close> runs the setter of
  \<open>Object.prototype\<close>, so the store gets no property for this id (the loop of \<open>render\<close>
  never visits it) and the message's object becomes the prototype of the store. Ids
  that the message does not contain change with it: before the message
  \<open>this.players['x']\<close> and \<open>this.players['id']\<close> are undefined, after it they are
  110 and the string \<open>__proto__\<close>.
\<close>

theorem players_moved_proto_key:
  "playersProto (joinedAt 100 100) = None \<and>
   lookupPlayers (joinedAt 100 100) ''x'' = Undefined \<and>
   lookupPlayers (joinedAt 100 100) ''id'' = Undefined \<and>
   players protoMoved ''__proto__'' = None \<and>
   playersKeys protoMoved = [''p1''] \<and>
   playersProto protoMoved = Some 1 \<and>
   heap protoMoved 1 = (playerAt 110 100)\<lparr>player_id := ''__proto__''\<rparr> \<and>
   lookupPlayers protoMoved ''x'' = Number 110 \<and>
   lookupPlayers protoMoved ''id'' = String ''__proto__''"
  by (simp add: protoMoved_eq joinedAt_eq lookupPlayers_def playerProperty_def
      objectPrototypeProperty_def objectPrototype_def playerAt_def)

section \<open>The controlled player and its store entry\<close>

text \<open>
  Claim C2. The claim is that \<open>myPlayer\<close> stays the same object as the store entry of
  the controlled player under every later mutation of the store. The code does not
  keep it so: \<open>Object.assign\<close> puts the new object of a \<open>players_moved\<close> message under
  the id, and \<open>myPlayer\<close> still refers to the object of the join message. In the
  scenario below the store entry of \<open>p1\<close> is object 1 at x = 110 while \<open>myPlayer\<close> is
  object 0 at x = 100; the next move to the right predicts on object 0 (x = 116, which
  is also what is sent) and leaves the store entry at 110.
\<close>

theorem players_moved_breaks_my_player_alias:
  "myPlayer (joinedAt 100 100) = Some 0 \<and> players (joinedAt 100 100) ''p1'' = Some 0 \<and>
   myPlayerId serverMoved = Some ''p1'' \<and>
   myPlayer serverMoved = Some 0 \<and> players serverMoved ''p1'' = Some 1 \<and>
   player_x (heap serverMoved 0) = 100 \<and> player_x (heap serverMoved 1) = 110 \<and>
   player_x (heap (sendMoveCommand ''ArrowRight'' serverMoved) 0) = 116 \<and>
   player_x (heap (sendMoveCommand ''ArrowRight'' serverMoved) 1) = 110 \<and>
   sentMessages (effects (sendMoveCommand ''ArrowRight'' serverMoved)) =
     [JoinGame ''Jadon'', Move 116 100]"
proof -
  have s: "socketOpen serverMoved" "myPlayer serverMoved = Some 0"
    "worldWidth serverMoved = 2048" "worldHeight serverMoved = 2048"
    "sentMessages (effects serverMoved) = [JoinGame ''Jadon'']"
    "heap serverMoved 0 = playerAt 100 100" "heap serverMoved 1 = playerAt 110 100"
    "myPlayerId serverMoved = Some ''p1''" "players serverMoved ''p1'' = Some 1"
    "heap serverMoved (Suc 0) = playerAt 110 100"
    by (simp_all add: serverMoved_eq joinedAt_eq sentMessages_simps)
  have j: "myPlayer (joinedAt 100 100) = Some 0" "players (joinedAt 100 100) ''p1'' = Some 0"
    by (simp_all add: joinedAt_eq)
  have c: "calculateNewPosition ''right'' serverMoved = (116, 100)"
    by (simp add: calculateNewPosition_def s playerAt_def moveSpeed_def)
  have h: "player_x (heap (sendMoveCommand ''ArrowRight'' serverMoved) 0) = 116"
    "player_x (heap (sendMoveCommand ''ArrowRight'' serverMoved) 1) = 110"
    by (simp_all add: sendMoveCommand_heap[OF s(1,2) arrow_directions(4)] s movePlayer_def
        moveSpeed_def playerAt_def)
  have m: "sentMessages (effects (sendMoveCommand ''ArrowRight'' serverMoved)) =
     [JoinGame ''Jadon'', Move 116 100]"
    by (simp add: sendMoveCommand_sent(1)[OF s(1) arrow_directions(4)] s c)
  have x: "player_x (heap serverMoved 0) = 100" "player_x (heap serverMoved 1) = 110"
    by (simp_all add: s playerAt_def)
  from j s(8,2,9) x h m show ?thesis by blast
qed

section \<open>Order of prediction and send\<close>

text \<open>
  Claim C3, amended. For a move intent with the channel open and a controlled player,
  \<open>sendMoveCommand\<close> first writes the facing to the controlled player's object, then
  hands the message with the calculated target position to the socket while that
  object still has the old position, then writes the position, and then renders: the
  handler is \<open>render\<close> applied to the state in which facing and position are written
  and the message is sent, so the camera is recomputed from the predicted position.
  Every store id that refers to the controlled player's object shows the predicted
  position and facing.
\<close>

theorem move_sent_then_position_updated:
  assumes "socketOpen s" and "myPlayer s = Some r" and "keyCodeToDirection k = Some d"
  shows "effects (moveMessageSent d s) =
           effects s @ [Sent (Move (fst (calculateNewPosition d s))
                                   (snd (calculateNewPosition d s)))] \<and>
         facing (heap (moveMessageSent d s) r) = Some d \<and>
         player_x (heap (moveMessageSent d s) r) = player_x (heap s r) \<and>
         player_y (heap (moveMessageSent d s) r) = player_y (heap s r) \<and>
         sendMoveCommand k s = updateMyPosition d (moveMessageSent d s) \<and>
         sendMoveCommand k s =
           render (s\<lparr>heap := (heap s)
                      (r := (heap s r)\<lparr>facing := Some d,
                                       player_x := fst (calculateNewPosition d s),
                                       player_y := snd (calculateNewPosition d s)\<rparr>),
                    effects := effects s @ [Sent (Move (fst (calculateNewPosition d s))
                                                       (snd (calculateNewPosition d s)))],
                    lastSentDirection := Some d, isMoving := True\<rparr>) \<and>
         (worldImage s \<longrightarrow>
            cameraX (sendMoveCommand k s) =
              max 0 (min (fst (calculateNewPosition d s) - canvasWidth s / 2)
                         (worldWidth s - canvasWidth s)) \<and>
            cameraY (sendMoveCommand k s) =
              max 0 (min (snd (calculateNewPosition d s) - canvasHeight s / 2)
                         (worldHeight s - canvasHeight s))) \<and>
         heap (sendMoveCommand k s) r =
           (heap s r)\<lparr>facing := Some d, player_x := fst (calculateNewPosition d s),
                       player_y := snd (calculateNewPosition d s)\<rparr> \<and>
         (\<forall>i. players s i = Some r \<longrightarrow>
            lookupPlayers (sendMoveCommand k s) i = Object r)"
proof -
  let ?nx = "fst (calculateNewPosition d s)"
  let ?ny = "snd (calculateNewPosition d s)"
  define p' where "p' = (heap s r)\<lparr>facing := Some d, player_x := ?nx, player_y := ?ny\<rparr>"
  define t where "t = s\<lparr>heap := (heap s)(r := p'),
      effects := effects s @ [Sent (Move ?nx ?ny)],
      lastSentDirection := Some d, isMoving := True\<rparr>"
  have eq: "sendMoveCommand k s = updateMyPosition d (moveMessageSent d s)"
    using assms by (simp add: sendMoveCommand_open)
  have h1: "heap (moveMessageSent d s) = (heap s)(r := (heap s r)\<lparr>facing := Some d\<rparr>)"
    using assms(2) by (rule moveMessageSent_heap)
  have a: "facing (heap (moveMessageSent d s) r) = Some d"
    "player_x (heap (moveMessageSent d s) r) = player_x (heap s r)"
    "player_y (heap (moveMessageSent d s) r) = player_y (heap s r)"
    by (simp_all add: h1)
  have mp: "movePlayer d (worldWidth s) (worldHeight s) ((heap s r)\<lparr>facing := Some d\<rparr>) = p'"
    unfolding p'_def movePlayer_facing calculateNewPosition_movePlayer[OF assms(2)]
    by (subst movePlayer_position) simp
  have ms: "moveMessageSent d s =
      s\<lparr>heap := (heap s)(r := (heap s r)\<lparr>facing := Some d\<rparr>),
        effects := effects s @ [Sent (Move ?nx ?ny)],
        lastSentDirection := Some d, isMoving := True\<rparr>"
    using assms(2)
    by (simp add: moveMessageSent_def Let_def calculateNewPosition_facing)
  have ex: "sendMoveCommand k s = render t"
    unfolding eq ms t_def using assms(2)
    by (simp add: updateMyPosition_def mp) (rule arg_cong[where f = render], simp)
  have tf: "myPlayer t = Some r" "heap t r = p'" "canvasWidth t = canvasWidth s"
    "canvasHeight t = canvasHeight s" "worldWidth t = worldWidth s"
    "worldHeight t = worldHeight s" "worldImage t = worldImage s" "players t = players s"
    "playersProto t = playersProto s"
    using assms(2) by (simp_all add: t_def)
  have cam: "cameraX (sendMoveCommand k s) =
        max 0 (min (?nx - canvasWidth s / 2) (worldWidth s - canvasWidth s))"
    "cameraY (sendMoveCommand k s) =
        max 0 (min (?ny - canvasHeight s / 2) (worldHeight s - canvasHeight s))"
    if "worldImage s"
    using that by (simp_all add: ex render_camera tf updateCamera_def Let_def p'_def)
  have hp: "heap (sendMoveCommand k s) r = p'"
    by (simp add: ex render_fields tf)
  have lk: "lookupPlayers (sendMoveCommand k s) i = Object r" if "players s i = Some r" for i
    using that by (simp add: lookupPlayers_def ex render_fields tf)
  from moveMessageSent_effects[of d s] a eq ex[unfolded t_def p'_def] cam hp[unfolded p'_def] lk
  show ?thesis by blast
qed

theorem move_sent_then_position_updated_witness:
  "socketOpen (joinedAt 1000 1000) \<and> myPlayer (joinedAt 1000 1000) = Some 0 \<and>
   keyCodeToDirection ''ArrowRight'' = Some ''right'' \<and>
   worldImage (joinedAt 1000 1000) \<and> players (joinedAt 1000 1000) ''p1'' = Some 0 \<and>
   calculateNewPosition ''right'' (joinedAt 1000 1000) = (1016, 1000) \<and>
   cameraX (joinedAt 1000 1000) = 600 \<and>
   effects (moveMessageSent ''right'' (joinedAt 1000 1000)) =
     [Sent (JoinGame ''Jadon''), RenderPass, ImageLoad ''s0'', Sent (Move 1016 1000)] \<and>
   player_x (heap (moveMessageSent ''right'' (joinedAt 1000 1000)) 0) = 1000 \<and>
   heap (sendMoveCommand ''ArrowRight'' (joinedAt 1000 1000)) 0 =
     (playerAt 1016 1000)\<lparr>facing := Some ''right''\<rparr> \<and>
   cameraX (sendMoveCommand ''ArrowRight'' (joinedAt 1000 1000)) = 616 \<and>
   cameraY (sendMoveCommand ''ArrowRight'' (joinedAt 1000 1000)) = 700 \<and>
   lookupPlayers (sendMoveCommand ''ArrowRight'' (joinedAt 1000 1000)) ''p1'' = Object 0"
proof -
  have h: "socketOpen (joinedAt 1000 1000)" "myPlayer (joinedAt 1000 1000) = Some 0"
    "keyCodeToDirection ''ArrowRight'' = Some ''right''"
    by (simp_all add: joinedAt_eq arrow_directions)
  have v: "worldImage (joinedAt 1000 1000)" "players (joinedAt 1000 1000) ''p1'' = Some 0"
    "effects (joinedAt 1000 1000) = [Sent (JoinGame ''Jadon''), RenderPass, ImageLoad ''s0'']"
    "heap (joinedAt 1000 1000) 0 = playerAt 1000 1000"
    "canvasWidth (joinedAt 1000 1000) = 800" "canvasHeight (joinedAt 1000 1000) = 600"
    "worldWidth (joinedAt 1000 1000) = 2048" "worldHeight (joinedAt 1000 1000) = 2048"
    "cameraX (joinedAt 1000 1000) = 600"
    by (simp_all add: joinedAt_eq)
  have c: "calculateNewPosition ''right'' (joinedAt 1000 1000) = (1016, 1000)"
    by (simp add: calculateNewPosition_def joinedAt_eq playerAt_def moveSpeed_def)
  note M = move_sent_then_position_updated[OF h]
  from M have "effects (moveMessageSent ''right'' (joinedAt 1000 1000)) =
      effects (joinedAt 1000 1000) @
        [Sent (Move (fst (calculateNewPosition ''right'' (joinedAt 1000 1000)))
                    (snd (calculateNewPosition ''right'' (joinedAt 1000 1000))))]"
    by (rule conjunct1)
  then have e1: "effects (moveMessageSent ''right'' (joinedAt 1000 1000)) =
     [Sent (JoinGame ''Jadon''), RenderPass, ImageLoad ''s0'', Sent (Move 1016 1000)]"
    by (simp add: c v)
  from M have "player_x (heap (moveMessageSent ''right'' (joinedAt 1000 1000)) 0) =
      player_x (heap (joinedAt 1000 1000) 0)"
    by blast
  then have x1: "player_x (heap (moveMessageSent ''right'' (joinedAt 1000 1000)) 0) = 1000"
    by (simp add: v playerAt_def)
  from M have "heap (sendMoveCommand ''ArrowRight'' (joinedAt 1000 1000)) 0 =
      (heap (joinedAt 1000 1000) 0)\<lparr>facing := Some ''right'',
         player_x := fst (calculateNewPosition ''right'' (joinedAt 1000 1000)),
         player_y := snd (calculateNewPosition ''right'' (joinedAt 1000 1000))\<rparr>"
    by blast
  then have h2: "heap (sendMoveCommand ''ArrowRight'' (joinedAt 1000 1000)) 0 =
     (playerAt 1016 1000)\<lparr>facing := Some ''right''\<rparr>"
    by (simp add: c v playerAt_def)
  from M v(1) have "cameraX (sendMoveCommand ''ArrowRight'' (joinedAt 1000 1000)) =
      max 0 (min (fst (calculateNewPosition ''right'' (joinedAt 1000 1000))
                    - canvasWidth (joinedAt 1000 1000) / 2)
                 (worldWidth (joinedAt 1000 1000) - canvasWidth (joinedAt 1000 1000)))"
    "cameraY (sendMoveCommand ''ArrowRight'' (joinedAt 1000 1000)) =
      max 0 (min (snd (calculateNewPosition ''right'' (joinedAt 1000 1000))
                    - canvasHeight (joinedAt 1000 1000) / 2)
                 (worldHeight (joinedAt 1000 1000) - canvasHeight (joinedAt 1000 1000)))"
    by blast+
  then have cm: "cameraX (sendMoveCommand ''ArrowRight'' (joinedAt 1000 1000)) = 616"
    "cameraY (sendMoveCommand ''ArrowRight'' (joinedAt 1000 1000)) = 700"
    by (simp_all add: c v)
  from M v(2) have lk:
    "lookupPlayers (sendMoveCommand ''ArrowRight'' (joinedAt 1000 1000)) ''p1'' = Object 0"
    by blast
  from h v(1,2,9) c e1 x1 h2 cm lk show ?thesis by blast
qed

text \<open>
  Claim C3 as stated fails: right after \<open>socket.send\<close> the message with x = 116 is out
  and the object of \<open>p1\<close> in the store still has x = 100.
\<close>

theorem position_written_after_send_counterexample:
  "effects (moveMessageSent ''right'' (joinedAt 100 100)) =
     [Sent (JoinGame ''Jadon''), RenderPass, ImageLoad ''s0'', Sent (Move 116 100)] \<and>
   player_x (heap (moveMessageSent ''right'' (joinedAt 100 100)) 0) = 100 \<and>
   player_y (heap (moveMessageSent ''right'' (joinedAt 100 100)) 0) = 100 \<and>
   players (moveMessageSent ''right'' (joinedAt 100 100)) ''p1'' = Some 0 \<and>
   sendMoveCommand ''ArrowRight'' (joinedAt 100 100) =
     updateMyPosition ''right'' (moveMessageSent ''right'' (joinedAt 100 100)) \<and>
   player_x (heap (sendMoveCommand ''ArrowRight'' (joinedAt 100 100)) 0) = 116"
proof -
  have c: "calculateNewPosition ''right'' (joinedAt 100 100) = (116, 100)"
    by (simp add: calculateNewPosition_def joinedAt_eq playerAt_def moveSpeed_def)
  have a: "effects (moveMessageSent ''right'' (joinedAt 100 100)) =
     [Sent (JoinGame ''Jadon''), RenderPass, ImageLoad ''s0'', Sent (Move 116 100)]"
    by (simp add: moveMessageSent_effects c) (simp add: joinedAt_eq)
  have b: "player_x (heap (moveMessageSent ''right'' (joinedAt 100 100)) 0) = 100"
    "player_y (heap (moveMessageSent ''right'' (joinedAt 100 100)) 0) = 100"
    "players (moveMessageSent ''right'' (joinedAt 100 100)) ''p1'' = Some 0"
    by (simp_all add: moveMessageSent_heap[OF joined_hyps(2)] moveMessageSent_fields)
      (simp_all add: joinedAt_eq playerAt_def)
  have d: "sendMoveCommand ''ArrowRight'' (joinedAt 100 100) =
     updateMyPosition ''right'' (moveMessageSent ''right'' (joinedAt 100 100))"
    by (simp add: sendMoveCommand_open[OF joined_hyps(1) arrow_directions(4)])
  have e: "player_x (heap (sendMoveCommand ''ArrowRight'' (joinedAt 100 100)) 0) = 116"
    by (simp add: right_from_joined playerAt_def)
  from a b d e show ?thesis by blast
qed

section \<open>The outbound move message and the store entry\<close>

text \<open>
  Claim C4. The claim is that the move message carries the position that the store
  shows for the controlled player right after the local prediction. The message does
  carry the predicted position of the object of \<open>myPlayer\<close> (see the theorem of C3), but
  after \<open>players_moved\<close> for the controlled id that object is no longer the store
  entry (the defect of C2): in the scenario below the message is \<open>move\<close> with
  (116, 100) while the store entry of \<open>p1\<close> stays at (110, 100).
\<close>

theorem move_message_differs_from_store_entry:
  "socketOpen serverMoved \<and> myPlayerId serverMoved = Some ''p1'' \<and>
   myPlayer serverMoved = Some 0 \<and>
   lookupPlayers (sendMoveCommand ''ArrowRight'' serverMoved) ''p1'' = Object 1 \<and>
   player_x (heap (sendMoveCommand ''ArrowRight'' serverMoved) 1) = 110 \<and>
   player_y (heap (sendMoveCommand ''ArrowRight'' serverMoved) 1) = 100 \<and>
   sentMessages (effects (sendMoveCommand ''ArrowRight'' serverMoved)) =
     [JoinGame ''Jadon'', Move 116 100]"
proof -
  have s: "socketOpen serverMoved" "myPlayer serverMoved = Some 0"
    "worldWidth serverMoved = 2048" "worldHeight serverMoved = 2048"
    "sentMessages (effects serverMoved) = [JoinGame ''Jadon'']"
    "heap serverMoved 0 = playerAt 100 100" "heap serverMoved (Suc 0) = playerAt 110 100"
    "myPlayerId serverMoved = Some ''p1''" "players serverMoved ''p1'' = Some 1"
    by (simp_all add: serverMoved_eq joinedAt_eq sentMessages_simps)
  have c: "calculateNewPosition ''right'' serverMoved = (116, 100)"
    by (simp add: calculateNewPosition_def s playerAt_def moveSpeed_def)
  have h: "player_x (heap (sendMoveCommand ''ArrowRight'' serverMoved) 1) = 110"
    "player_y (heap (sendMoveCommand ''ArrowRight'' serverMoved) 1) = 100"
    by (simp_all add: sendMoveCommand_heap[OF s(1,2) arrow_directions(4)] s playerAt_def)
  have m: "sentMessages (effects (sendMoveCommand ''ArrowRight'' serverMoved)) =
     [JoinGame ''Jadon'', Move 116 100]"
    by (simp add: sendMoveCommand_sent(1)[OF s(1) arrow_directions(4)] s c)
  have l: "lookupPlayers (sendMoveCommand ''ArrowRight'' serverMoved) ''p1'' = Object 1"
    by (simp add: lookupPlayers_def sendMoveCommand_fields s)
  from s(1,8,2) l h m show ?thesis by blast
qed

section \<open>Local prediction stays inside the world\<close>

text \<open>
  Claim C5. If the controlled player's coordinates lie in
  \<open>[0, worldWidth] \<times> [0, worldHeight]\<close>, they do so again after \<open>updateMyPosition\<close> for
  any direction; from \<open>y = 5\<close> the first step up gives \<open>y = 0\<close>, and so does every
  further one.
\<close>

theorem applyMove_stays_in_world:
  assumes "myPlayer s = Some r"
    and "0 \<le> player_x (heap s r)" and "player_x (heap s r) \<le> worldWidth s"
    and "0 \<le> player_y (heap s r)" and "player_y (heap s r) \<le> worldHeight s"
  shows "0 \<le> player_x (heap (updateMyPosition d s) r) \<and>
         player_x (heap (updateMyPosition d s) r) \<le> worldWidth s \<and>
         0 \<le> player_y (heap (updateMyPosition d s) r) \<and>
         player_y (heap (updateMyPosition d s) r) \<le> worldHeight s \<and>
         (player_y (heap s r) = 5 \<longrightarrow>
            player_y (heap (updateMyPosition ''up'' s) r) = 0 \<and>
            (\<forall>n. player_y (heap ((updateMyPosition ''up'' ^^ Suc n) s) r) = 0))"
proof -
  have "heap (updateMyPosition d s) r = movePlayer d (worldWidth s) (worldHeight s) (heap s r)"
    using assms(1) by (simp add: updateMyPosition_heap)
  moreover note movePlayer_bounds[OF assms(2-5), of d]
  moreover have "player_y (heap (updateMyPosition ''up'' s) r) = 0"
    if "player_y (heap s r) = 5"
    using up_iterated[OF assms(1) that, of 0] by simp
  moreover have "\<forall>n. player_y (heap ((updateMyPosition ''up'' ^^ Suc n) s) r) = 0"
    if "player_y (heap s r) = 5"
    using up_iterated[OF assms(1) that] by blast
  ultimately show ?thesis by simp
qed

theorem applyMove_stays_in_world_witness:
  "myPlayer (joinedAt 100 5) = Some 0 \<and>
   0 \<le> player_x (heap (joinedAt 100 5) 0) \<and>
   player_x (heap (joinedAt 100 5) 0) \<le> worldWidth (joinedAt 100 5) \<and>
   0 \<le> player_y (heap (joinedAt 100 5) 0) \<and>
   player_y (heap (joinedAt 100 5) 0) \<le> worldHeight (joinedAt 100 5) \<and>
   player_y (heap (joinedAt 100 5) 0) = 5 \<and>
   player_y (heap (updateMyPosition ''up'' (joinedAt 100 5)) 0) = 0 \<and>
   (\<forall>n. player_y (heap ((updateMyPosition ''up'' ^^ Suc n) (joinedAt 100 5)) 0) = 0)"
proof -
  have h: "myPlayer (joinedAt 100 5) = Some 0"
    "0 \<le> player_x (heap (joinedAt 100 5) 0)"
    "player_x (heap (joinedAt 100 5) 0) \<le> worldWidth (joinedAt 100 5)"
    "0 \<le> player_y (heap (joinedAt 100 5) 0)"
    "player_y (heap (joinedAt 100 5) 0) \<le> worldHeight (joinedAt 100 5)"
    "player_y (heap (joinedAt 100 5) 0) = 5"
    by (simp_all add: joinedAt_eq playerAt_def)
  from applyMove_stays_in_world[OF h(1-5), of "''up''"] h show ?thesis by blast
qed

section \<open>Intents without a controlled player\<close>

text \<open>
  Claim C6, amended. While no controlled player exists, a move or stop intent changes
  neither the player map, nor any player object, nor the controlled-player reference,
  nor the camera, and starts no render; with the channel not open it changes nothing
  and sends nothing. With the channel open the only changes are the message handed to
  the socket and the fields \<open>lastSentDirection\<close> and \<open>isMoving\<close>.
\<close>

theorem no_player_intents:
  assumes "myPlayer s = None"
  shows "sendMoveCommand k s =
           (if socketOpen s
            then case keyCodeToDirection k of
                   None \<Rightarrow> s
                 | Some d \<Rightarrow> s\<lparr>effects := effects s @ [Sent (Move 0 0)],
                              lastSentDirection := Some d, isMoving := True\<rparr>
            else s) \<and>
         sendStopCommand s =
           (if socketOpen s
            then s\<lparr>effects := effects s @ [Sent Stop], lastSentDirection := None,
                   isMoving := False\<rparr>
            else s) \<and>
         players (sendMoveCommand k s) = players s \<and> heap (sendMoveCommand k s) = heap s \<and>
         myPlayer (sendMoveCommand k s) = None \<and>
         cameraX (sendMoveCommand k s) = cameraX s \<and> cameraY (sendMoveCommand k s) = cameraY s \<and>
         players (sendStopCommand s) = players s \<and> heap (sendStopCommand s) = heap s \<and>
         myPlayer (sendStopCommand s) = None \<and>
         cameraX (sendStopCommand s) = cameraX s \<and> cameraY (sendStopCommand s) = cameraY s"
  using assms
  by (simp add: sendMoveCommand_def sendStopCommand_def moveMessageSent_def
      calculateNewPosition_def updateMyPosition_def Let_def split: option.split)

text \<open>
  The state after \<open>onopen\<close>, before the join is answered: channel open, no controlled
  player. And the state of the constructor, with the channel not yet open.
\<close>

theorem no_player_intents_witness:
  "myPlayer (onopen (constructor 800 600)) = None \<and>
   socketOpen (onopen (constructor 800 600)) \<and>
   keyCodeToDirection ''ArrowUp'' = Some ''up'' \<and>
   sendMoveCommand ''ArrowUp'' (onopen (constructor 800 600)) =
     (onopen (constructor 800 600))
       \<lparr>effects := [Sent (JoinGame ''Jadon''), Sent (Move 0 0)],
        lastSentDirection := Some ''up'', isMoving := True\<rparr> \<and>
   sendStopCommand (onopen (constructor 800 600)) =
     (onopen (constructor 800 600))
       \<lparr>effects := [Sent (JoinGame ''Jadon''), Sent Stop],
        lastSentDirection := None, isMoving := False\<rparr> \<and>
   players (sendMoveCommand ''ArrowUp'' (onopen (constructor 800 600))) = Map.empty \<and>
   cameraX (sendMoveCommand ''ArrowUp'' (onopen (constructor 800 600))) = 0 \<and>
   myPlayer (constructor 800 600) = None \<and> \<not> socketOpen (constructor 800 600) \<and>
   sendMoveCommand ''ArrowUp'' (constructor 800 600) = constructor 800 600 \<and>
   sendStopCommand (constructor 800 600) = constructor 800 600"
proof -
  have o: "myPlayer (onopen (constructor 800 600)) = None"
    "socketOpen (onopen (constructor 800 600))"
    "effects (onopen (constructor 800 600)) = [Sent (JoinGame ''Jadon'')]"
    "players (onopen (constructor 800 600)) = Map.empty"
    "cameraX (onopen (constructor 800 600)) = 0"
    by (simp_all add: onopen_def joinGame_def constructor_def)
  have c: "myPlayer (constructor 800 600) = None" "\<not> socketOpen (constructor 800 600)"
    by (simp_all add: constructor_def)
  note A = no_player_intents[OF o(1), of "''ArrowUp''"]
  note B = no_player_intents[OF c(1), of "''ArrowUp''"]
  from A have "sendMoveCommand ''ArrowUp'' (onopen (constructor 800 600)) =
           (if socketOpen (onopen (constructor 800 600))
            then case keyCodeToDirection ''ArrowUp'' of
                   None \<Rightarrow> onopen (constructor 800 600)
                 | Some d \<Rightarrow> (onopen (constructor 800 600))
                     \<lparr>effects := effects (onopen (constructor 800 600)) @ [Sent (Move 0 0)],
                      lastSentDirection := Some d, isMoving := True\<rparr>
            else onopen (constructor 800 600))"
    by (rule conjunct1)
  then have a1: "sendMoveCommand ''ArrowUp'' (onopen (constructor 800 600)) =
     (onopen (constructor 800 600))
       \<lparr>effects := [Sent (JoinGame ''Jadon''), Sent (Move 0 0)],
        lastSentDirection := Some ''up'', isMoving := True\<rparr>"
    by (simp only: o arrow_directions if_True option.case append.simps)
  from A have "sendStopCommand (onopen (constructor 800 600)) =
           (if socketOpen (onopen (constructor 800 600))
            then (onopen (constructor 800 600))
                   \<lparr>effects := effects (onopen (constructor 800 600)) @ [Sent Stop],
                    lastSentDirection := None, isMoving := False\<rparr>
            else onopen (constructor 800 600))"
    by blast
  then have a2: "sendStopCommand (onopen (constructor 800 600)) =
     (onopen (constructor 800 600))
       \<lparr>effects := [Sent (JoinGame ''Jadon''), Sent Stop],
        lastSentDirection := None, isMoving := False\<rparr>"
    by (simp only: o if_True append.simps)
  from A have "players (sendMoveCommand ''ArrowUp'' (onopen (constructor 800 600))) =
      players (onopen (constructor 800 600))"
    "cameraX (sendMoveCommand ''ArrowUp'' (onopen (constructor 800 600))) =
      cameraX (onopen (constructor 800 600))"
    by blast+
  then have a3: "players (sendMoveCommand ''ArrowUp'' (onopen (constructor 800 600))) = Map.empty"
    "cameraX (sendMoveCommand ''ArrowUp'' (onopen (constructor 800 600))) = 0"
    by (simp_all only: o)
  from B have "sendMoveCommand ''ArrowUp'' (constructor 800 600) =
           (if socketOpen (constructor 800 600)
            then case keyCodeToDirection ''ArrowUp'' of
                   None \<Rightarrow> constructor 800 600
                 | Some d \<Rightarrow> (constructor 800 600)
                     \<lparr>effects := effects (constructor 800 600) @ [Sent (Move 0 0)],
                      lastSentDirection := Some d, isMoving := True\<rparr>
            else constructor 800 600)"
    by (rule conjunct1)
  then have b1: "sendMoveCommand ''ArrowUp'' (constructor 800 600) = constructor 800 600"
    by (simp only: c if_False)
  from B have "sendStopCommand (constructor 800 600) =
           (if socketOpen (constructor 800 600)
            then (constructor 800 600)
                   \<lparr>effects := effects (constructor 800 600) @ [Sent Stop],
                    lastSentDirection := None, isMoving := False\<rparr>
            else constructor 800 600)"
    by blast
  then have b2: "sendStopCommand (constructor 800 600) = constructor 800 600"
    by (simp only: c if_False)
  note b = b1 b2
  from o(1,2) arrow_directions(1) a1 a2 a3 c b show ?thesis by blast
qed

text \<open>
  Claim C6 as stated fails with the channel open: before the join is answered, and
  after a failed join, a move intent sends \<open>move\<close> with position (0, 0) and sets
  \<open>isMoving\<close>, and a stop intent sends \<open>stop\<close>.
\<close>

theorem no_player_intent_sends_counterexample:
  "myPlayer (onopen (constructor 800 600)) = None \<and>
   effects (onopen (constructor 800 600)) = [Sent (JoinGame ''Jadon'')] \<and>
   effects (sendMoveCommand ''ArrowUp'' (onopen (constructor 800 600))) =
     [Sent (JoinGame ''Jadon''), Sent (Move 0 0)] \<and>
   isMoving (sendMoveCommand ''ArrowUp'' (onopen (constructor 800 600))) \<and>
   lastSentDirection (sendMoveCommand ''ArrowUp'' (onopen (constructor 800 600))) = Some ''up'' \<and>
   sendMoveCommand ''ArrowUp'' (onopen (constructor 800 600)) \<noteq> onopen (constructor 800 600) \<and>
   myPlayer (onmessage (WJoinGameFail ''full'') (onopen (constructor 800 600))) = None \<and>
   effects (sendStopCommand (onmessage (WJoinGameFail ''full'') (onopen (constructor 800 600)))) =
     [Sent (JoinGame ''Jadon''), RenderPass, Sent Stop]"
proof -
  have a: "effects (sendMoveCommand ''ArrowUp'' (onopen (constructor 800 600))) =
     [Sent (JoinGame ''Jadon''), Sent (Move 0 0)]"
    by (simp add: onopen_def joinGame_def constructor_def sendMoveCommand_def
        keyCodeToDirection_def keyMap_def moveMessageSent_def calculateNewPosition_def
        updateMyPosition_def Let_def)
  have b: "effects (onopen (constructor 800 600)) = [Sent (JoinGame ''Jadon'')]"
    by (simp add: onopen_def joinGame_def constructor_def)
  have c: "sendMoveCommand ''ArrowUp'' (onopen (constructor 800 600)) \<noteq> onopen (constructor 800 600)"
  proof
    assume "sendMoveCommand ''ArrowUp'' (onopen (constructor 800 600)) = onopen (constructor 800 600)"
    then have "effects (sendMoveCommand ''ArrowUp'' (onopen (constructor 800 600))) =
       effects (onopen (constructor 800 600))" by simp
    then show False by (simp add: a b)
  qed
  have d: "myPlayer (onopen (constructor 800 600)) = None"
    "isMoving (sendMoveCommand ''ArrowUp'' (onopen (constructor 800 600)))"
    "lastSentDirection (sendMoveCommand ''ArrowUp'' (onopen (constructor 800 600))) = Some ''up''"
    "myPlayer (onmessage (WJoinGameFail ''full'') (onopen (constructor 800 600))) = None"
    "effects (sendStopCommand (onmessage (WJoinGameFail ''full'') (onopen (constructor 800 600)))) =
     [Sent (JoinGame ''Jadon''), RenderPass, Sent Stop]"
    by (simp_all add: onopen_def joinGame_def constructor_def sendMoveCommand_def
        keyCodeToDirection_def keyMap_def moveMessageSent_def calculateNewPosition_def
        updateMyPosition_def Let_def onmessage_def handleServerMessage_def render_def
        updateCamera_def sendStopCommand_def firstRendered_def)
  from a b c d show ?thesis by blast
qed

section \<open>Key release\<close>

text \<open>
  Claim C7. On the release of an arrow key, with the key marked released: if no key is
  held any more, \<open>handleKeyUp\<close> is one call of \<open>sendStopCommand\<close>; otherwise it is one
  call of \<open>sendMoveCommand\<close> for the first key still held in the order up, down, left,
  right, and the direction of that call is the first held direction in this order.
  With the channel open exactly one message is sent: \<open>stop\<close>, or \<open>move\<close> with the
  position calculated for that direction; the direction becomes \<open>lastSentDirection\<close>
  and the facing of the controlled player, who is moved one step in it.
\<close>

theorem key_up_intent:
  assumes "map fst (pressedKeys s) = arrowKeys" and "code \<in> set arrowKeys"
  shows "let s1 = s\<lparr>pressedKeys := assign code False (pressedKeys s)\<rparr>;
             s' = handleKeyUp code s in
           s' = (case firstHeldKey s1 of
                   None \<Rightarrow> sendStopCommand s1
                 | Some k \<Rightarrow> sendMoveCommand k s1) \<and>
           (\<forall>k. held s1 k = (held s k \<and> k \<noteq> code)) \<and>
           firstHeldDirection s1 =
             (case firstHeldKey s1 of None \<Rightarrow> None | Some k \<Rightarrow> keyCodeToDirection k) \<and>
           (socketOpen s \<longrightarrow>
              (case firstHeldDirection s1 of
                 None \<Rightarrow>
                   sentMessages (effects s') = sentMessages (effects s) @ [Stop] \<and>
                   lastSentDirection s' = None \<and> \<not> isMoving s'
               | Some d \<Rightarrow>
                   sentMessages (effects s') =
                     sentMessages (effects s) @
                       [Move (fst (calculateNewPosition d s)) (snd (calculateNewPosition d s))] \<and>
                   lastSentDirection s' = Some d \<and> isMoving s' \<and>
                   (\<forall>r. myPlayer s = Some r \<longrightarrow>
                      heap s' r =
                        movePlayer d (worldWidth s) (worldHeight s)
                          ((heap s r)\<lparr>facing := Some d\<rparr>))))"
proof -
  define s1 where "s1 = s\<lparr>pressedKeys := assign code False (pressedKeys s)\<rparr>"
  obtain a b c d where ks: "pressedKeys s = [(''ArrowUp'', a), (''ArrowDown'', b),
      (''ArrowLeft'', c), (''ArrowRight'', d)]"
    using arrow_entries[OF assms(1)] by blast
  have eq: "handleKeyUp code s =
      (case firstHeldKey s1 of None \<Rightarrow> sendStopCommand s1 | Some k \<Rightarrow> sendMoveCommand k s1)"
    unfolding s1_def by (rule handleKeyUp_entries(1)[OF ks assms(2)])
  have hk: "held s1 k = (held s k \<and> k \<noteq> code)" for k
    using handleKeyUp_entries(3)[OF ks assms(2), of k]
    by (auto simp: held_def s1_def)
  have so: "socketOpen s1 = socketOpen s" and ef: "effects s1 = effects s"
    and mp: "myPlayer s1 = myPlayer s" and hp: "heap s1 = heap s"
    and ww: "worldWidth s1 = worldWidth s" and wh: "worldHeight s1 = worldHeight s"
    by (simp_all add: s1_def)
  have cp: "calculateNewPosition dd s1 = calculateNewPosition dd s" for dd
    by (rule calculateNewPosition_cong) (simp_all add: s1_def)
  have msgs: "case firstHeldDirection s1 of
                 None \<Rightarrow>
                   sentMessages (effects (handleKeyUp code s)) =
                     sentMessages (effects s) @ [Stop] \<and>
                   lastSentDirection (handleKeyUp code s) = None \<and>
                   \<not> isMoving (handleKeyUp code s)
               | Some d \<Rightarrow>
                   sentMessages (effects (handleKeyUp code s)) =
                     sentMessages (effects s) @
                       [Move (fst (calculateNewPosition d s)) (snd (calculateNewPosition d s))] \<and>
                   lastSentDirection (handleKeyUp code s) = Some d \<and>
                   isMoving (handleKeyUp code s) \<and>
                   (\<forall>r. myPlayer s = Some r \<longrightarrow>
                      heap (handleKeyUp code s) r =
                        movePlayer d (worldWidth s) (worldHeight s)
                          ((heap s r)\<lparr>facing := Some d\<rparr>))"
    if op: "socketOpen s"
  proof (cases "firstHeldKey s1")
    case None
    then have "firstHeldDirection s1 = None" by (simp add: firstHeldDirection_key)
    then show ?thesis
      using sendStopCommand_sent[of s1] op None by (simp add: eq so ef)
  next
    case (Some k)
    then obtain dd where dd: "keyCodeToDirection k = Some dd"
      by (auto simp: firstHeldKey_def arrow_directions split: if_splits)
    then have fd: "firstHeldDirection s1 = Some dd"
      using Some by (simp add: firstHeldDirection_key)
    have o1: "socketOpen s1" using op so by simp
    have hh: "heap (sendMoveCommand k s1) r =
        movePlayer dd (worldWidth s) (worldHeight s) ((heap s r)\<lparr>facing := Some dd\<rparr>)"
      if "myPlayer s = Some r" for r
    proof -
      have "myPlayer s1 = Some r" using that mp by simp
      from sendMoveCommand_heap[OF o1 this dd] show ?thesis by (simp add: hp ww wh)
    qed
    from sendMoveCommand_sent[OF o1 dd] hh show ?thesis
      by (simp add: eq Some fd ef cp)
  qed
  show ?thesis
    unfolding Let_def s1_def[symmetric] using eq hk msgs firstHeldDirection_key[of s1] by blast
qed

text \<open>
  Up and left are held and left is released: the move intent is for up. Down and right
  are held and right is released: the move intent is for down.
\<close>

theorem key_up_intent_witness:
  "map fst (pressedKeys upLeftHeld) = arrowKeys \<and> ''ArrowLeft'' \<in> set arrowKeys \<and>
   held upLeftHeld ''ArrowUp'' \<and> held upLeftHeld ''ArrowLeft'' \<and>
   handleKeyUp ''ArrowLeft'' upLeftHeld =
     sendMoveCommand ''ArrowUp''
       (upLeftHeld\<lparr>pressedKeys := assign ''ArrowLeft'' False (pressedKeys upLeftHeld)\<rparr>) \<and>
   lastSentDirection (handleKeyUp ''ArrowLeft'' upLeftHeld) = Some ''up'' \<and>
   map fst (pressedKeys downRightHeld) = arrowKeys \<and> ''ArrowRight'' \<in> set arrowKeys \<and>
   held downRightHeld ''ArrowDown'' \<and> held downRightHeld ''ArrowRight'' \<and>
   lastSentDirection (handleKeyUp ''ArrowRight'' downRightHeld) = Some ''down'' \<and>
   heap (handleKeyUp ''ArrowRight'' downRightHeld) 0 = (playerAt 116 132)\<lparr>facing := Some ''down''\<rparr>"
proof -
  have h: "map fst (pressedKeys upLeftHeld) = arrowKeys" "''ArrowLeft'' \<in> set arrowKeys"
    by (simp_all add: upLeftHeld_fields arrowKeys_def)
  have hd: "held upLeftHeld ''ArrowUp''" "held upLeftHeld ''ArrowLeft''"
    by (simp_all add: held_def upLeftHeld_fields)
  have f: "firstHeldKey
      (upLeftHeld\<lparr>pressedKeys := assign ''ArrowLeft'' False (pressedKeys upLeftHeld)\<rparr>)
      = Some ''ArrowUp''"
    "firstHeldDirection
      (upLeftHeld\<lparr>pressedKeys := assign ''ArrowLeft'' False (pressedKeys upLeftHeld)\<rparr>)
      = Some ''up''"
    by (simp_all add: firstHeldKey_def firstHeldDirection_def held_def upLeftHeld_fields)
  note K = key_up_intent[OF h, unfolded Let_def f option.case]
  from K have A: "handleKeyUp ''ArrowLeft'' upLeftHeld =
      sendMoveCommand ''ArrowUp''
        (upLeftHeld\<lparr>pressedKeys := assign ''ArrowLeft'' False (pressedKeys upLeftHeld)\<rparr>)"
    by (rule conjunct1)
  from K upLeftHeld_fields(2)
  have L: "lastSentDirection (handleKeyUp ''ArrowLeft'' upLeftHeld) = Some ''up''"
    by blast
  have h2: "map fst (pressedKeys downRightHeld) = arrowKeys" "''ArrowRight'' \<in> set arrowKeys"
    by (simp_all add: downRightHeld_fields arrowKeys_def)
  have hd2: "held downRightHeld ''ArrowDown''" "held downRightHeld ''ArrowRight''"
    by (simp_all add: held_def downRightHeld_fields)
  have f2: "firstHeldKey
      (downRightHeld\<lparr>pressedKeys := assign ''ArrowRight'' False (pressedKeys downRightHeld)\<rparr>)
      = Some ''ArrowDown''"
    "firstHeldDirection
      (downRightHeld\<lparr>pressedKeys := assign ''ArrowRight'' False (pressedKeys downRightHeld)\<rparr>)
      = Some ''down''"
    by (simp_all add: firstHeldKey_def firstHeldDirection_def held_def downRightHeld_fields)
  note K2 = key_up_intent[OF h2, unfolded Let_def f2 option.case]
  from K2 downRightHeld_fields(2)
  have L2: "lastSentDirection (handleKeyUp ''ArrowRight'' downRightHeld) = Some ''down''"
    by blast
  from K2 downRightHeld_fields(2,3)
  have "heap (handleKeyUp ''ArrowRight'' downRightHeld) 0 =
      movePlayer ''down'' (worldWidth downRightHeld) (worldHeight downRightHeld)
        ((heap downRightHeld 0)\<lparr>facing := Some ''down''\<rparr>)"
    by blast
  then have P2: "heap (handleKeyUp ''ArrowRight'' downRightHeld) 0 =
      (playerAt 116 132)\<lparr>facing := Some ''down''\<rparr>"
    by (simp add: downRightHeld_fields downRightHeld_player movePlayer_def moveSpeed_def
        playerAt_def)
  from A L h hd h2 hd2 L2 P2 show ?thesis by blast
qed

section \<open>Avatar resolution\<close>



section \<open>Camera clamping\<close>

text \<open>
  Claim C9, amended. For every position of the controlled player and every viewport
  that is no larger than the world, the recomputed camera offset lies in
  \<open>[0, worldWidth - canvasWidth] \<times> [0, worldHeight - canvasHeight]\<close>, so that the
  viewport ends inside the world; \<open>render\<close> recomputes the camera in this way whenever
  the world image is set.
\<close>

theorem camera_within_world:
  assumes "myPlayer s = Some r"
    and "canvasWidth s \<le> worldWidth s" and "canvasHeight s \<le> worldHeight s"
  shows "0 \<le> cameraX (updateCamera s) \<and>
         cameraX (updateCamera s) \<le> worldWidth s - canvasWidth s \<and>
         0 \<le> cameraY (updateCamera s) \<and>
         cameraY (updateCamera s) \<le> worldHeight s - canvasHeight s \<and>
         cameraX (updateCamera s) + canvasWidth s \<le> worldWidth s \<and>
         cameraY (updateCamera s) + canvasHeight s \<le> worldHeight s \<and>
         cameraX (render s) = (if worldImage s then cameraX (updateCamera s) else cameraX s) \<and>
         cameraY (render s) = (if worldImage s then cameraY (updateCamera s) else cameraY s)"
proof -
  have "0 \<le> cameraX (updateCamera s) \<and>
         cameraX (updateCamera s) \<le> worldWidth s - canvasWidth s \<and>
         0 \<le> cameraY (updateCamera s) \<and>
         cameraY (updateCamera s) \<le> worldHeight s - canvasHeight s \<and>
         cameraX (updateCamera s) + canvasWidth s \<le> worldWidth s \<and>
         cameraY (updateCamera s) + canvasHeight s \<le> worldHeight s"
    using assms by (auto simp: updateCamera_def Let_def max_def min_def)
  with render_camera[of s] show ?thesis by simp
qed

text \<open>The world corner (2048, 2048) and the corner (0, 0) in an 800 by 600 window.\<close>

theorem camera_within_world_witness:
  "myPlayer (joinedAt 2048 2048) = Some 0 \<and>
   canvasWidth (joinedAt 2048 2048) \<le> worldWidth (joinedAt 2048 2048) \<and>
   canvasHeight (joinedAt 2048 2048) \<le> worldHeight (joinedAt 2048 2048) \<and>
   cameraX (updateCamera (joinedAt 2048 2048)) = 1248 \<and>
   cameraY (updateCamera (joinedAt 2048 2048)) = 1448 \<and>
   cameraX (updateCamera (joinedAt 2048 2048)) + canvasWidth (joinedAt 2048 2048)
     \<le> worldWidth (joinedAt 2048 2048) \<and>
   cameraY (updateCamera (joinedAt 2048 2048)) + canvasHeight (joinedAt 2048 2048)
     \<le> worldHeight (joinedAt 2048 2048) \<and>
   cameraX (updateCamera (joinedAt 0 0)) = 0 \<and>
   cameraY (updateCamera (joinedAt 0 0)) = 0"
proof -
  have h: "myPlayer (joinedAt 2048 2048) = Some 0"
    "canvasWidth (joinedAt 2048 2048) \<le> worldWidth (joinedAt 2048 2048)"
    "canvasHeight (joinedAt 2048 2048) \<le> worldHeight (joinedAt 2048 2048)"
    by (simp_all add: joinedAt_eq)
  have v: "cameraX (updateCamera (joinedAt 0 0)) = 0"
    "cameraY (updateCamera (joinedAt 0 0)) = 0"
    "cameraX (updateCamera (joinedAt 2048 2048)) = 1248"
    "cameraY (updateCamera (joinedAt 2048 2048)) = 1448"
    by (simp_all add: joinedAt_eq updateCamera_def Let_def playerAt_def)
  from camera_within_world[OF h] h v show ?thesis by blast
qed

text \<open>
  Claim C9 as stated fails for a viewport wider than the world: after a resize to
  3840 by 2160 the offset is 0, which is above \<open>worldWidth - canvasWidth = -1792\<close>, and
  the right edge of the viewport is at 3840, outside the world.
\<close>

theorem camera_wide_viewport_counterexample:
  "cameraX (resize 3840 2160 (joinedAt 100 100)) = 0 \<and>
   canvasWidth (resize 3840 2160 (joinedAt 100 100)) = 3840 \<and>
   worldWidth (resize 3840 2160 (joinedAt 100 100)) = 2048 \<and>
   \<not> cameraX (resize 3840 2160 (joinedAt 100 100))
       \<le> worldWidth (resize 3840 2160 (joinedAt 100 100))
         - canvasWidth (resize 3840 2160 (joinedAt 100 100)) \<and>
   \<not> cameraX (resize 3840 2160 (joinedAt 100 100))
         + canvasWidth (resize 3840 2160 (joinedAt 100 100))
       \<le> worldWidth (resize 3840 2160 (joinedAt 100 100))"
  by (simp add: resize_def render_camera render_fields updateCamera_fields)
    (simp add: joinedAt_eq updateCamera_def Let_def playerAt_def)

section \<open>Image loads per cache key\<close>

text \<open>
  Claim C10, amended. Once an image is stored under a cache key, \<open>renderAvatar\<close> starts
  no load for that key, and a stored key stays stored. A call for a key that is not
  stored starts a load of its own; the completed load stores the image under the key.
\<close>

theorem cached_key_starts_no_load:
  "(imageCache s (cacheKey p) \<noteq> None \<longrightarrow> renderAvatar p s = s) \<and>
   (imageCache s (cacheKey p) = None \<and> avatars s (avatar p) = Some a \<and>
    frameData a p = Some fd \<longrightarrow>
      pending (renderAvatar p s) = pending s @ [(cacheKey p, fd)] \<and>
      effects (renderAvatar p s) = effects s @ [ImageLoad fd] \<and>
      imageCache (renderAvatar p s) = imageCache s) \<and>
   (i < length (pending s) \<longrightarrow>
      imageCache (imageLoaded i s) (fst (pending s ! i)) = Some (snd (pending s ! i))) \<and>
   (imageCache s k \<noteq> None \<longrightarrow>
      imageCache (imageLoaded i s) k \<noteq> None \<and> imageCache (renderAvatar p s) k \<noteq> None)"
  by (auto simp: renderAvatar_def imageLoaded_def split: option.split)

theorem cached_key_starts_no_load_witness:
  "imageCache (imageLoaded 0 (renderAvatar (playerAt 100 100) (joinedAt 100 100)))
     (cacheKey (playerAt 100 100)) = Some ''s0'' \<and>
   renderAvatar (playerAt 100 100)
     (imageLoaded 0 (renderAvatar (playerAt 100 100) (joinedAt 100 100))) =
   imageLoaded 0 (renderAvatar (playerAt 100 100) (joinedAt 100 100))"
proof -
  have c: "imageCache (imageLoaded 0 (renderAvatar (playerAt 100 100) (joinedAt 100 100)))
     (cacheKey (playerAt 100 100)) = Some ''s0''"
    by (simp add: renderAvatar_joined cacheKey_p1 imageLoaded_def)
  from cached_key_starts_no_load[of
      "imageLoaded 0 (renderAvatar (playerAt 100 100) (joinedAt 100 100))" "playerAt 100 100"]
    c
  show ?thesis by simp
qed

text \<open>
  Claim C10 as stated fails: the cache is written only when a load has completed. The
  render of the join reply has started the load of \<open>p1\<close>'s frame; a further call of
  \<open>renderAvatar\<close> for the same player before that load completes starts a second load
  for the same key, and so does the render that follows a \<open>players_moved\<close> message.
\<close>

theorem second_request_starts_second_load_counterexample:
  "pending (joinedAt 100 100) = [(''knight_south_0'', ''s0'')] \<and>
   imageCache (joinedAt 100 100) ''knight_south_0'' = None \<and>
   pending (renderAvatar (playerAt 100 100) (joinedAt 100 100)) =
     [(''knight_south_0'', ''s0''), (''knight_south_0'', ''s0'')] \<and>
   effects (renderAvatar (playerAt 100 100) (joinedAt 100 100)) =
     [Sent (JoinGame ''Jadon''), RenderPass, ImageLoad ''s0'', ImageLoad ''s0''] \<and>
   pending serverMoved = [(''knight_south_0'', ''s0''), (''knight_south_0'', ''s0'')] \<and>
   effects serverMoved =
     [Sent (JoinGame ''Jadon''), RenderPass, ImageLoad ''s0'', RenderPass, ImageLoad ''s0'']"
  by (simp add: renderAvatar_joined serverMoved_eq) (simp add: joinedAt_eq)

end
